theory Spec2Isabelle
  imports Main "HOL-Library.Word"
begin

unbundle bit_operations_syntax

section \<open>The GS plugin: renderer and device lifecycle (plugins/GS/GS.cpp)\<close>

text \<open>
  The embedding follows \<^verbatim>\<open>plugins/GS/GS.cpp\<close>. The file-level statics
  \<^verbatim>\<open>is_d3d\<close>, \<^verbatim>\<open>s_gs\<close>, \<^verbatim>\<open>m_current_renderer_type\<close> and the function-local static
  \<^verbatim>\<open>stored_toggle_state\<close> of \<^verbatim>\<open>GSopen2\<close> are the fields of one record that every entry
  point takes and returns. A pointer that the code compares with \<^verbatim>\<open>NULL\<close> is an
  \<open>option\<close>; dereferencing \<^verbatim>\<open>s_gs\<close> without a test is the result \<open>None\<close> of the entry
  point when \<^verbatim>\<open>s_gs\<close> is \<^verbatim>\<open>NULL\<close>.

  Objects created by \<^verbatim>\<open>new\<close> carry the serial number of their allocation, so that two
  objects are the same object exactly when their numbers agree. The log of the heap
  records each construction and destruction in the order in which the code performs them.
\<close>

type_synonym u8 = "8 word"
type_synonym u32 = "32 word"
type_synonym ptr = nat

datatype GSRendererType = Undefined | DX1011_HW | Null | OGL_HW | OGL_SW

datatype GSDeviceClass = GSDevice11 | GSDeviceOGL | GSDeviceNull

datatype GSRendererClass = GSRendererDX11 | GSRendererOGL | GSRendererSW int | GSRendererNull

record GSDevice =
  dev_id :: nat
  dev_class :: GSDeviceClass

text \<open>
  The classes \<^verbatim>\<open>GSRenderer\<close> and \<^verbatim>\<open>GSState\<close> are declared outside the files at hand. The
  record keeps what \<^verbatim>\<open>GS.cpp\<close> reads and writes (\<^verbatim>\<open>m_dev\<close>, the register block bound by
  \<^verbatim>\<open>SetRegsMem\<close>) and stands for the rest of the emulation state by the sequence of
  transfers the object has received since its construction.
\<close>

datatype gs_call = Transfer_call nat ptr u32

record GSRenderer =
  gs_id :: nat
  gs_class :: GSRendererClass
  m_regs :: "ptr option"
  m_dev :: "GSDevice option"
  m_calls :: "gs_call list"

datatype heap_event =
  New_Device nat | New_Renderer nat | Delete_Renderer nat | Delete_Device nat | Reset_Device nat

record gs_state =
  is_d3d :: bool
  s_gs :: "GSRenderer option"
  m_current_renderer_type :: GSRendererType
  stored_toggle_state :: bool
  next_obj :: nat
  heap_log :: "heap_event list"

text \<open>
  What the host supplies to a call: whether the build defines \<^verbatim>\<open>_WIN32\<close>, the libretro
  context type \<^verbatim>\<open>hw_render.context_type\<close>, the string of the renderer option
  (\<^verbatim>\<open>option_value(STRING_PCSX2_OPT_RENDERER, ...)\<close>), the configuration map
  \<^verbatim>\<open>theApp.m_current_configuration\<close> as \<^verbatim>\<open>operator[]\<close> reads it (a key that is absent reads
  as the empty string), and whether the device-specific setup inside \<^verbatim>\<open>CreateDevice\<close>
  succeeds during this call. The enum of
  context types is declared in the libretro header; \<^verbatim>\<open>GSopen2\<close> tells apart
  \<^verbatim>\<open>RETRO_HW_CONTEXT_DIRECT3D\<close>, \<^verbatim>\<open>RETRO_HW_CONTEXT_NONE\<close> and every other value.
\<close>

datatype retro_hw_context_type =
  RETRO_HW_CONTEXT_DIRECT3D | RETRO_HW_CONTEXT_NONE | RETRO_HW_CONTEXT_OTHER

record host =
  WIN32 :: bool
  context_type :: retro_hw_context_type
  opt_renderer :: string
  m_current_configuration :: "string \<Rightarrow> string"
  device_setup_ok :: bool

text \<open>
  \<^verbatim>\<open>GSdxApp::GetConfigI\<close> is \<^verbatim>\<open>std::stoi(m_current_configuration[entry])\<close>. \<^verbatim>\<open>std::stoi\<close>
  skips leading white space, reads an optional sign and the decimal digits that follow,
  and ignores what comes after them; it throws \<^verbatim>\<open>std::invalid_argument\<close> when there is no
  digit and \<^verbatim>\<open>std::out_of_range\<close> when the value does not fit the 32-bit \<^verbatim>\<open>int\<close>. No function
  of \<^verbatim>\<open>GS.cpp\<close> catches an exception, so a function that calls \<^verbatim>\<open>GetConfigI\<close> returns a sum:
  \<open>Inl\<close> the exception that leaves it, \<open>Inr\<close> the value it returns.
\<close>

datatype cxx_exception = invalid_argument | out_of_range

definition isspace :: "char \<Rightarrow> bool" where
  "isspace c = (of_char c \<in> set [32, 9, 10, 11, 12, 13 :: nat])"

definition isdigit :: "char \<Rightarrow> bool" where
  "isdigit c = (48 \<le> (of_char c :: nat) \<and> (of_char c :: nat) \<le> 57)"

fun digits_value :: "int \<Rightarrow> string \<Rightarrow> int" where
  "digits_value acc [] = acc"
| "digits_value acc (c # cs) = digits_value (10 * acc + (of_char c - 48)) cs"

definition stoi :: "string \<Rightarrow> cxx_exception + int" where
  "stoi str =
     (let s1 = dropWhile isspace str;
          negative = (s1 \<noteq> [] \<and> hd s1 = CHR ''-'');
          s2 = (if s1 \<noteq> [] \<and> (hd s1 = CHR ''-'' \<or> hd s1 = CHR ''+'') then tl s1 else s1);
          ds = takeWhile isdigit s2;
          v = (if negative then - digits_value 0 ds else digits_value 0 ds)
      in if ds = [] then Inl invalid_argument
         else if v < - (2 ^ 31) then Inl out_of_range
         else if 2 ^ 31 - 1 < v then Inl out_of_range
         else Inr v)"

definition GetConfigI :: "host \<Rightarrow> string \<Rightarrow> cxx_exception + int" where
  "GetConfigI h entry = stoi (m_current_configuration h entry)"

text \<open>The statics as \<^verbatim>\<open>GSdxApp::Init\<close> leaves them, before the first open.\<close>

definition GS_initial :: gs_state where
  "GS_initial =
     \<lparr>is_d3d = False, s_gs = None, m_current_renderer_type = Undefined,
      stored_toggle_state = False, next_obj = 0, heap_log = []\<rparr>"

subsection \<open>Collaborators of the renderer\<close>

text \<open>
  A \<^verbatim>\<open>new\<close> expression returns a pointer to a newly constructed object and never
  \<^verbatim>\<open>NULL\<close> (running out of memory raises \<^verbatim>\<open>std::bad_alloc\<close> and ends the run); the tests
  \<^verbatim>\<open>dev == NULL\<close> and \<^verbatim>\<open>s_gs == NULL\<close> that follow the allocations in \<^verbatim>\<open>_GSopen\<close> are
  kept as branches all the same.
\<close>

definition new_GSDevice :: "GSDeviceClass \<Rightarrow> gs_state \<Rightarrow> GSDevice option \<times> gs_state" where
  "new_GSDevice c s =
     (Some \<lparr>dev_id = next_obj s, dev_class = c\<rparr>,
      s\<lparr>next_obj := Suc (next_obj s), heap_log := heap_log s @ [New_Device (next_obj s)]\<rparr>)"

definition new_GSRenderer :: "GSRendererClass \<Rightarrow> gs_state \<Rightarrow> GSRenderer option \<times> gs_state" where
  "new_GSRenderer c s =
     (Some \<lparr>gs_id = next_obj s, gs_class = c, m_regs = None, m_dev = None, m_calls = []\<rparr>,
      s\<lparr>next_obj := Suc (next_obj s), heap_log := heap_log s @ [New_Renderer (next_obj s)]\<rparr>)"

text \<open>
  Modelled from the spec: the destructor of \<^verbatim>\<open>GSRenderer\<close>, which is not in the files at
  hand. Destroying a Renderer cascades to destroying the Device it owns.
  \<^verbatim>\<open>delete\<close> of a null pointer does nothing.
\<close>

definition destroy_events :: "GSRenderer \<Rightarrow> heap_event list" where
  "destroy_events r =
     Delete_Renderer (gs_id r) # (case m_dev r of None \<Rightarrow> [] | Some d \<Rightarrow> [Delete_Device (dev_id d)])"

definition delete_s_gs :: "gs_state \<Rightarrow> gs_state" where
  "delete_s_gs s =
     (case s_gs s of
        None \<Rightarrow> s
      | Some r \<Rightarrow> s\<lparr>heap_log := heap_log s @ destroy_events r\<rparr>)"

text \<open>
  Modelled from the spec: \<^verbatim>\<open>GSRenderer::SetRegsMem\<close> binds (does not copy) the register
  block.
\<close>

definition SetRegsMem :: "ptr \<Rightarrow> GSRenderer \<Rightarrow> GSRenderer" where
  "SetRegsMem basemem r = r\<lparr>m_regs := Some basemem\<rparr>"

text \<open>
  Modelled from the spec: \<^verbatim>\<open>GSRenderer::CreateDevice\<close> takes ownership of the Device it
  is passed and returns true; when the device-specific setup fails it returns false and
  has not taken the Device.
\<close>

definition CreateDevice :: "bool \<Rightarrow> GSDevice \<Rightarrow> GSRenderer \<Rightarrow> bool \<times> GSRenderer" where
  "CreateDevice ok dev r = (if ok then (True, r\<lparr>m_dev := Some dev\<rparr>) else (False, r))"

text \<open>
  Modelled from the spec: \<^verbatim>\<open>GSRenderer::ResetDevice\<close> is the hardware teardown of the
  Device the Renderer holds; the Renderer keeps its other state.
\<close>

definition ResetDevice :: "GSRenderer \<Rightarrow> heap_event list" where
  "ResetDevice r = (case m_dev r of None \<Rightarrow> [] | Some d \<Rightarrow> [Reset_Device (dev_id d)])"

text \<open>
  Modelled from the spec: \<^verbatim>\<open>GSState::Transfer<index>\<close> ingests \<open>size\<close> units from the
  buffer into the Renderer's internal state and returns nothing.
\<close>

definition Transfer :: "nat \<Rightarrow> ptr \<Rightarrow> u32 \<Rightarrow> GSRenderer \<Rightarrow> GSRenderer" where
  "Transfer path mem sz r = r\<lparr>m_calls := m_calls r @ [Transfer_call path mem sz]\<rparr>"

subsection \<open>GSshutdown and GSclose\<close>

definition GSshutdown :: "gs_state \<Rightarrow> gs_state" where
  "GSshutdown s = (delete_s_gs s)\<lparr>s_gs := None, m_current_renderer_type := Undefined\<rparr>"

definition GSclose :: "gs_state \<Rightarrow> gs_state" where
  "GSclose s =
     (case s_gs s of
        None \<Rightarrow> s
      | Some r \<Rightarrow>
          s\<lparr>s_gs := Some (r\<lparr>m_dev := None\<rparr>),
            heap_log := heap_log s @ ResetDevice r
              @ (case m_dev r of None \<Rightarrow> [] | Some d \<Rightarrow> [Delete_Device (dev_id d)])\<rparr>)"

subsection \<open>The open transition\<close>

text \<open>
  The two \<^verbatim>\<open>switch\<close> statements of \<^verbatim>\<open>_GSopen\<close> that choose the classes. The label
  \<^verbatim>\<open>default\<close> comes first; with \<^verbatim>\<open>_WIN32\<close> it shares the body of \<^verbatim>\<open>DX1011_HW\<close>, without
  it the label \<^verbatim>\<open>DX1011_HW\<close> does not exist and \<^verbatim>\<open>default\<close> falls into \<^verbatim>\<open>OGL_HW\<close>.
\<close>

definition device_class_for :: "bool \<Rightarrow> GSRendererType \<Rightarrow> GSDeviceClass" where
  "device_class_for win32 renderer =
     (case renderer of
        OGL_HW \<Rightarrow> GSDeviceOGL
      | OGL_SW \<Rightarrow> GSDeviceOGL
      | Null \<Rightarrow> GSDeviceNull
      | _ \<Rightarrow> (if win32 then GSDevice11 else GSDeviceOGL))"

text \<open>
  The second \<^verbatim>\<open>switch\<close> reads \<^verbatim>\<open>theApp.GetConfigI("extrathreads")\<close> for \<^verbatim>\<open>OGL_SW\<close> when
  \<^verbatim>\<open>threads\<close> is \<^verbatim>\<open>-1\<close>; an exception of that call leaves \<^verbatim>\<open>_GSopen\<close> before the Renderer
  is constructed.
\<close>

definition renderer_class_for ::
  "host \<Rightarrow> GSRendererType \<Rightarrow> int \<Rightarrow> cxx_exception + GSRendererClass" where
  "renderer_class_for h renderer threads =
     (case renderer of
        OGL_HW \<Rightarrow> Inr GSRendererOGL
      | OGL_SW \<Rightarrow>
          (if threads = - 1
           then (case GetConfigI h ''extrathreads'' of
                   Inl e \<Rightarrow> Inl e
                 | Inr t \<Rightarrow> Inr (GSRendererSW t))
           else Inr (GSRendererSW threads))
      | Null \<Rightarrow> Inr GSRendererNull
      | _ \<Rightarrow> Inr (if WIN32 h then GSRendererDX11 else GSRendererOGL))"

definition sets_is_d3d :: "host \<Rightarrow> GSRendererType \<Rightarrow> bool" where
  "sets_is_d3d h renderer = (WIN32 h \<and> renderer \<noteq> OGL_HW \<and> renderer \<noteq> OGL_SW \<and> renderer \<noteq> Null)"

text \<open>
  \<^verbatim>\<open>static int _GSopen(GSRendererType renderer, int threads, u8 *basemem)\<close>, in the order
  of its statements. The first \<^verbatim>\<open>switch\<close> of the function loads the OpenGL entry points
  into their global pointers and calls \<^verbatim>\<open>GLLoader::check_gl_requirements\<close>; it touches none
  of the statics of this file and has no counterpart here.

  \<open>GSopen_teardown\<close> is the reset of \<^verbatim>\<open>is_d3d\<close> and the test
  \<^verbatim>\<open>m_current_renderer_type != renderer\<close> with its body.
\<close>

definition GSopen_teardown :: "GSRendererType \<Rightarrow> gs_state \<Rightarrow> gs_state" where
  "GSopen_teardown renderer s0 =
     (let s1 = s0\<lparr>is_d3d := False\<rparr>
      in if m_current_renderer_type s1 \<noteq> renderer
         then (delete_s_gs s1)\<lparr>s_gs := None, m_current_renderer_type := renderer\<rparr>
         else s1)"

text \<open>The test \<^verbatim>\<open>s_gs == NULL\<close> and the construction of the Renderer inside it.\<close>

definition GSopen_renderer ::
  "host \<Rightarrow> GSRendererType \<Rightarrow> int \<Rightarrow> gs_state \<Rightarrow> cxx_exception + gs_state" where
  "GSopen_renderer h renderer threads s =
     (case s_gs s of
        Some r \<Rightarrow> Inr s
      | None \<Rightarrow>
          (case renderer_class_for h renderer threads of
             Inl e \<Rightarrow> Inl e
           | Inr c \<Rightarrow>
               (case new_GSRenderer c s of
                  (gs, s') \<Rightarrow>
                    Inr (s'\<lparr>s_gs := gs,
                            is_d3d := (if sets_is_d3d h renderer then True else is_d3d s')\<rparr>))))"

text \<open>
  The last statements: \<^verbatim>\<open>SetRegsMem\<close>, \<^verbatim>\<open>CreateDevice\<close>, and \<^verbatim>\<open>GSclose\<close> with the result
  \<^verbatim>\<open>-1\<close> when \<^verbatim>\<open>CreateDevice\<close> returns false.
\<close>

definition GSopen_bind ::
  "host \<Rightarrow> ptr \<Rightarrow> GSDevice \<Rightarrow> GSRenderer \<Rightarrow> gs_state \<Rightarrow> (cxx_exception + int) \<times> gs_state" where
  "GSopen_bind h basemem dev r s =
     (case CreateDevice (device_setup_ok h) dev (SetRegsMem basemem r) of
        (ok, r') \<Rightarrow>
          if \<not> ok then (Inr (- 1), GSclose (s\<lparr>s_gs := Some r'\<rparr>))
          else (Inr 0, s\<lparr>s_gs := Some r'\<rparr>))"

text \<open>
  The whole function. Its result is the value it returns, or the exception that leaves it,
  together with the statics as the call leaves them.
\<close>

definition GSopen_internal ::
  "host \<Rightarrow> GSRendererType \<Rightarrow> int \<Rightarrow> ptr \<Rightarrow> gs_state \<Rightarrow> (cxx_exception + int) \<times> gs_state" where
  "GSopen_internal h renderer threads basemem s0 =
     (case new_GSDevice (device_class_for (WIN32 h) renderer) (GSopen_teardown renderer s0) of
        (None, s3) \<Rightarrow> (Inr (- 1), s3)
      | (Some dev, s3) \<Rightarrow>
          (case GSopen_renderer h renderer threads s3 of
             Inl e \<Rightarrow> (Inl e, s3)
           | Inr s4 \<Rightarrow>
               (case s_gs s4 of
                  None \<Rightarrow> (Inr (- 1), s4)
                | Some r \<Rightarrow> GSopen_bind h basemem dev r s4)))"

subsection \<open>GSopen2\<close>

definition toggle_switch :: "bool \<Rightarrow> GSRendererType \<Rightarrow> GSRendererType" where
  "toggle_switch win32 t =
     (case t of
        OGL_SW \<Rightarrow> OGL_HW
      | OGL_HW \<Rightarrow> OGL_SW
      | DX1011_HW \<Rightarrow> (if win32 then OGL_SW else OGL_SW)
      | _ \<Rightarrow> OGL_SW)"

text \<open>
  \<^verbatim>\<open>GSopen2(u32 flags, u8 *basemem)\<close>. \<open>GSopen2_select\<close> is the function up to the
  assignment to \<^verbatim>\<open>stored_toggle_state\<close>: the variant it leaves in
  \<^verbatim>\<open>m_current_renderer_type\<close> is the one \<^verbatim>\<open>GSopen2\<close> passes to \<^verbatim>\<open>_GSopen\<close>.
\<close>

definition toggle_state :: "u32 \<Rightarrow> bool" where
  "toggle_state flags = (flags AND 4 \<noteq> 0)"

definition GSopen2_select :: "host \<Rightarrow> u32 \<Rightarrow> gs_state \<Rightarrow> gs_state" where
  "GSopen2_select h flags s0 =
     (let s1 = s0\<lparr>m_current_renderer_type :=
                  (case context_type h of
                     RETRO_HW_CONTEXT_DIRECT3D \<Rightarrow> DX1011_HW
                   | RETRO_HW_CONTEXT_NONE \<Rightarrow> Null
                   | _ \<Rightarrow> (if opt_renderer h = ''Software'' then OGL_SW else OGL_HW))\<rparr>;
          s2 = (if m_current_renderer_type s1 \<noteq> Undefined \<and> stored_toggle_state s1 \<noteq> toggle_state flags
                then s1\<lparr>m_current_renderer_type := toggle_switch (WIN32 h) (m_current_renderer_type s1)\<rparr>
                else s1)
      in s2\<lparr>stored_toggle_state := toggle_state flags\<rparr>)"

definition GSopen2 ::
  "host \<Rightarrow> u32 \<Rightarrow> ptr \<Rightarrow> gs_state \<Rightarrow> (cxx_exception + int) \<times> gs_state" where
  "GSopen2 h flags basemem s0 =
     GSopen_internal h (m_current_renderer_type (GSopen2_select h flags s0)) (- 1) basemem
       (GSopen2_select h flags s0)"

text \<open>
  A run of calls of \<^verbatim>\<open>GSopen2\<close>, each with its own host answers, flags and pointer, on the
  statics as the call before left them.
\<close>

fun GSopen2_calls :: "(host \<times> u32 \<times> ptr) list \<Rightarrow> gs_state \<Rightarrow> gs_state" where
  "GSopen2_calls [] s = s"
| "GSopen2_calls ((h, flags, basemem) # cs) s = GSopen2_calls cs (snd (GSopen2 h flags basemem s))"

subsection \<open>Object identity\<close>

text \<open>The number of the Renderer that \<^verbatim>\<open>s_gs\<close> points to, and of the Device it holds.\<close>

definition renderer_identity :: "gs_state \<Rightarrow> nat option" where
  "renderer_identity s = map_option gs_id (s_gs s)"

definition device_identity :: "gs_state \<Rightarrow> nat option" where
  "device_identity s = (case s_gs s of None \<Rightarrow> None | Some r \<Rightarrow> map_option dev_id (m_dev r))"

subsection \<open>The GIF entry points and GSfreeze\<close>

text \<open>
  Each entry point dereferences \<^verbatim>\<open>s_gs\<close> without a test. The arithmetic of
  \<^verbatim>\<open>GSgifTransfer1\<close> is that of \<^verbatim>\<open>u32\<close>: \<^verbatim>\<open>(0x4000 - addr) / 16\<close> wraps around when
  \<^verbatim>\<open>addr\<close> exceeds \<^verbatim>\<open>0x4000\<close>.
\<close>

definition GSgifTransfer :: "ptr \<Rightarrow> u32 \<Rightarrow> gs_state \<Rightarrow> gs_state option" where
  "GSgifTransfer mem sz s =
     (case s_gs s of None \<Rightarrow> None | Some r \<Rightarrow> Some (s\<lparr>s_gs := Some (Transfer 3 mem sz r)\<rparr>))"

definition GSgifTransfer1 :: "ptr \<Rightarrow> u32 \<Rightarrow> gs_state \<Rightarrow> gs_state option" where
  "GSgifTransfer1 mem addr s =
     (case s_gs s of
        None \<Rightarrow> None
      | Some r \<Rightarrow> Some (s\<lparr>s_gs := Some (Transfer 0 (mem + unat addr) ((0x4000 - addr) div 16) r)\<rparr>))"

definition GSgifTransfer2 :: "ptr \<Rightarrow> u32 \<Rightarrow> gs_state \<Rightarrow> gs_state option" where
  "GSgifTransfer2 mem sz s =
     (case s_gs s of None \<Rightarrow> None | Some r \<Rightarrow> Some (s\<lparr>s_gs := Some (Transfer 1 mem sz r)\<rparr>))"

definition GSgifTransfer3 :: "ptr \<Rightarrow> u32 \<Rightarrow> gs_state \<Rightarrow> gs_state option" where
  "GSgifTransfer3 mem sz s =
     (case s_gs s of None \<Rightarrow> None | Some r \<Rightarrow> Some (s\<lparr>s_gs := Some (Transfer 2 mem sz r)\<rparr>))"

text \<open>
  \<^verbatim>\<open>GSfreeze\<close>. The macros \<^verbatim>\<open>FREEZE_SAVE\<close>, \<^verbatim>\<open>FREEZE_SIZE\<close> and \<^verbatim>\<open>FREEZE_LOAD\<close>, the struct
  \<^verbatim>\<open>GSFreezeData\<close> and the methods \<^verbatim>\<open>Freeze\<close> and \<^verbatim>\<open>Defrost\<close> of the Renderer are declared
  outside the files at hand, so the function takes them as parameters: the three mode
  values, a type \<open>'d\<close> of buffers, and the two methods as functions that return their
  result code with the buffer and the Renderer as they leave them.
\<close>

record freeze_modes =
  FREEZE_SAVE :: int
  FREEZE_SIZE :: int
  FREEZE_LOAD :: int

definition GSfreeze ::
  "freeze_modes \<Rightarrow> (GSRenderer \<Rightarrow> 'd \<Rightarrow> bool \<Rightarrow> int \<times> 'd \<times> GSRenderer) \<Rightarrow>
   (GSRenderer \<Rightarrow> 'd \<Rightarrow> int \<times> GSRenderer) \<Rightarrow> int \<Rightarrow> 'd \<Rightarrow> gs_state \<Rightarrow> (int \<times> 'd \<times> gs_state) option" where
  "GSfreeze k Freeze Defrost mode data s =
     (if mode = FREEZE_SAVE k then
        (case s_gs s of
           None \<Rightarrow> None
         | Some r \<Rightarrow> (case Freeze r data False of (rc, data', r') \<Rightarrow> Some (rc, data', s\<lparr>s_gs := Some r'\<rparr>)))
      else if mode = FREEZE_SIZE k then
        (case s_gs s of
           None \<Rightarrow> None
         | Some r \<Rightarrow> (case Freeze r data True of (rc, data', r') \<Rightarrow> Some (rc, data', s\<lparr>s_gs := Some r'\<rparr>)))
      else if mode = FREEZE_LOAD k then
        (case s_gs s of
           None \<Rightarrow> None
         | Some r \<Rightarrow> (case Defrost r data of (rc, r') \<Rightarrow> Some (rc, data, s\<lparr>s_gs := Some r'\<rparr>)))
      else Some (0, data, s))"

subsection \<open>Example inputs\<close>

text \<open>
  A host whose context is an OpenGL one, with the renderer option set to hardware and the
  entry \<^verbatim>\<open>extrathreads\<close> of the configuration as \<^verbatim>\<open>GSdxApp::Init\<close> sets it, and the state
  after a first successful open of the hardware OpenGL variant.
\<close>

definition default_configuration :: "string \<Rightarrow> string" where
  "default_configuration entry = (if entry = ''extrathreads'' then ''2'' else [])"

definition host_gl :: "bool \<Rightarrow> host" where
  "host_gl ok =
     \<lparr>WIN32 = False, context_type = RETRO_HW_CONTEXT_OTHER, opt_renderer = ''Hardware'',
      m_current_configuration = default_configuration, device_setup_ok = ok\<rparr>"

definition opened_example :: gs_state where
  "opened_example =
     \<lparr>is_d3d = False,
      s_gs = Some \<lparr>gs_id = 1, gs_class = GSRendererOGL, m_regs = Some 4096,
                   m_dev = Some \<lparr>dev_id = 0, dev_class = GSDeviceOGL\<rparr>, m_calls = []\<rparr>,
      m_current_renderer_type = OGL_HW, stored_toggle_state = False, next_obj = 2,
      heap_log = [New_Device 0, New_Renderer 1]\<rparr>"

definition transferred_example :: gs_state where
  "transferred_example =
     \<lparr>is_d3d = False,
      s_gs = Some \<lparr>gs_id = 1, gs_class = GSRendererOGL, m_regs = Some 4096,
                   m_dev = Some \<lparr>dev_id = 0, dev_class = GSDeviceOGL\<rparr>,
                   m_calls = [Transfer_call 3 8192 5]\<rparr>,
      m_current_renderer_type = OGL_HW, stored_toggle_state = False, next_obj = 2,
      heap_log = [New_Device 0, New_Renderer 1]\<rparr>"

definition freeze_modes_example :: freeze_modes where
  "freeze_modes_example = \<lparr>FREEZE_SAVE = 1, FREEZE_SIZE = 2, FREEZE_LOAD = 0\<rparr>"

text \<open>
  A host that forces no backend (its context is neither Direct3D nor none) and whose
  renderer option selects hardware.
\<close>

definition hw_host :: "host \<Rightarrow> bool" where
  "hw_host h =
     (context_type h \<noteq> RETRO_HW_CONTEXT_DIRECT3D \<and> context_type h \<noteq> RETRO_HW_CONTEXT_NONE \<and>
      opt_renderer h \<noteq> ''Software'')"

section \<open>The lane-mask tables (plugins/GS/GSVector.cpp)\<close>

text \<open>
  Modelled from the spec: the classes \<^verbatim>\<open>GSVector4i\<close> and \<^verbatim>\<open>GSVector8i\<close> are declared in a
  header outside the files at hand. A vector is its 32-bit lanes in the order of the
  constructor's arguments, the first argument being the lowest lane; byte \<open>k\<close> of the
  vector is byte \<open>k mod 4\<close> of lane \<open>k div 4\<close>, the lowest byte first. The literals of
  \<^verbatim>\<open>InitVectors\<close> are those of the source, row by row.
\<close>

datatype GSVector4i = GSVector4i u32 u32 u32 u32
datatype GSVector8i = GSVector8i u32 u32 u32 u32 u32 u32 u32 u32

fun lanes4 :: "GSVector4i \<Rightarrow> u32 list" where
  "lanes4 (GSVector4i x y z w) = [x, y, z, w]"

fun lanes8 :: "GSVector8i \<Rightarrow> u32 list" where
  "lanes8 (GSVector8i x0 y0 z0 w0 x1 y1 z1 w1) = [x0, y0, z0, w0, x1, y1, z1, w1]"

definition lane_byte :: "u32 list \<Rightarrow> nat \<Rightarrow> u8" where
  "lane_byte ls k = ucast (drop_bit (8 * (k mod 4)) (ls ! (k div 4)))"

definition u8_4i :: "GSVector4i \<Rightarrow> nat \<Rightarrow> u8" where
  "u8_4i v k = lane_byte (lanes4 v) k"

definition u8_8i :: "GSVector8i \<Rightarrow> nat \<Rightarrow> u8" where
  "u8_8i v k = lane_byte (lanes8 v) k"

record 'v mask_tables =
  m_xff :: "nat \<Rightarrow> 'v"
  m_x0f :: "nat \<Rightarrow> 'v"

text \<open>
  The static arrays \<^verbatim>\<open>m_xff\<close> and \<^verbatim>\<open>m_x0f\<close> of a vector class, as functions of the index,
  and the loop \<^verbatim>\<open>for (n = 0; n < countof(src); ++n) dst[n] = src[n]\<close> of \<^verbatim>\<open>InitVectors\<close>.
\<close>

function copy_table :: "nat \<Rightarrow> 'v list \<Rightarrow> (nat \<Rightarrow> 'v) \<Rightarrow> (nat \<Rightarrow> 'v)" where
  "copy_table n src dst = (if n < length src then copy_table (Suc n) src (dst(n := src ! n)) else dst)"
  by pat_completeness auto
termination
  by (relation "measure (\<lambda>(n, src, dst). length src - n)") auto

declare copy_table.simps [simp del]

definition GSVector4i_xff :: "GSVector4i list" where
  "GSVector4i_xff =
     [GSVector4i 0x00000000 0x00000000 0x00000000 0x00000000,
      GSVector4i 0x000000ff 0x00000000 0x00000000 0x00000000,
      GSVector4i 0x0000ffff 0x00000000 0x00000000 0x00000000,
      GSVector4i 0x00ffffff 0x00000000 0x00000000 0x00000000,
      GSVector4i 0xffffffff 0x00000000 0x00000000 0x00000000,
      GSVector4i 0xffffffff 0x000000ff 0x00000000 0x00000000,
      GSVector4i 0xffffffff 0x0000ffff 0x00000000 0x00000000,
      GSVector4i 0xffffffff 0x00ffffff 0x00000000 0x00000000,
      GSVector4i 0xffffffff 0xffffffff 0x00000000 0x00000000,
      GSVector4i 0xffffffff 0xffffffff 0x000000ff 0x00000000,
      GSVector4i 0xffffffff 0xffffffff 0x0000ffff 0x00000000,
      GSVector4i 0xffffffff 0xffffffff 0x00ffffff 0x00000000,
      GSVector4i 0xffffffff 0xffffffff 0xffffffff 0x00000000,
      GSVector4i 0xffffffff 0xffffffff 0xffffffff 0x000000ff,
      GSVector4i 0xffffffff 0xffffffff 0xffffffff 0x0000ffff,
      GSVector4i 0xffffffff 0xffffffff 0xffffffff 0x00ffffff,
      GSVector4i 0xffffffff 0xffffffff 0xffffffff 0xffffffff]"

definition GSVector4i_x0f :: "GSVector4i list" where
  "GSVector4i_x0f =
     [GSVector4i 0x00000000 0x00000000 0x00000000 0x00000000,
      GSVector4i 0x0000000f 0x00000000 0x00000000 0x00000000,
      GSVector4i 0x00000f0f 0x00000000 0x00000000 0x00000000,
      GSVector4i 0x000f0f0f 0x00000000 0x00000000 0x00000000,
      GSVector4i 0x0f0f0f0f 0x00000000 0x00000000 0x00000000,
      GSVector4i 0x0f0f0f0f 0x0000000f 0x00000000 0x00000000,
      GSVector4i 0x0f0f0f0f 0x00000f0f 0x00000000 0x00000000,
      GSVector4i 0x0f0f0f0f 0x000f0f0f 0x00000000 0x00000000,
      GSVector4i 0x0f0f0f0f 0x0f0f0f0f 0x00000000 0x00000000,
      GSVector4i 0x0f0f0f0f 0x0f0f0f0f 0x0000000f 0x00000000,
      GSVector4i 0x0f0f0f0f 0x0f0f0f0f 0x00000f0f 0x00000000,
      GSVector4i 0x0f0f0f0f 0x0f0f0f0f 0x000f0f0f 0x00000000,
      GSVector4i 0x0f0f0f0f 0x0f0f0f0f 0x0f0f0f0f 0x00000000,
      GSVector4i 0x0f0f0f0f 0x0f0f0f0f 0x0f0f0f0f 0x0000000f,
      GSVector4i 0x0f0f0f0f 0x0f0f0f0f 0x0f0f0f0f 0x00000f0f,
      GSVector4i 0x0f0f0f0f 0x0f0f0f0f 0x0f0f0f0f 0x000f0f0f,
      GSVector4i 0x0f0f0f0f 0x0f0f0f0f 0x0f0f0f0f 0x0f0f0f0f]"

definition GSVector8i_xff :: "GSVector8i list" where
  "GSVector8i_xff =
     [GSVector8i 0x00000000 0x00000000 0x00000000 0x00000000 0x00000000 0x00000000 0x00000000 0x00000000,
      GSVector8i 0x000000ff 0x00000000 0x00000000 0x00000000 0x00000000 0x00000000 0x00000000 0x00000000,
      GSVector8i 0x0000ffff 0x00000000 0x00000000 0x00000000 0x00000000 0x00000000 0x00000000 0x00000000,
      GSVector8i 0x00ffffff 0x00000000 0x00000000 0x00000000 0x00000000 0x00000000 0x00000000 0x00000000,
      GSVector8i 0xffffffff 0x00000000 0x00000000 0x00000000 0x00000000 0x00000000 0x00000000 0x00000000,
      GSVector8i 0xffffffff 0x000000ff 0x00000000 0x00000000 0x00000000 0x00000000 0x00000000 0x00000000,
      GSVector8i 0xffffffff 0x0000ffff 0x00000000 0x00000000 0x00000000 0x00000000 0x00000000 0x00000000,
      GSVector8i 0xffffffff 0x00ffffff 0x00000000 0x00000000 0x00000000 0x00000000 0x00000000 0x00000000,
      GSVector8i 0xffffffff 0xffffffff 0x00000000 0x00000000 0x00000000 0x00000000 0x00000000 0x00000000,
      GSVector8i 0xffffffff 0xffffffff 0x000000ff 0x00000000 0x00000000 0x00000000 0x00000000 0x00000000,
      GSVector8i 0xffffffff 0xffffffff 0x0000ffff 0x00000000 0x00000000 0x00000000 0x00000000 0x00000000,
      GSVector8i 0xffffffff 0xffffffff 0x00ffffff 0x00000000 0x00000000 0x00000000 0x00000000 0x00000000,
      GSVector8i 0xffffffff 0xffffffff 0xffffffff 0x00000000 0x00000000 0x00000000 0x00000000 0x00000000,
      GSVector8i 0xffffffff 0xffffffff 0xffffffff 0x000000ff 0x00000000 0x00000000 0x00000000 0x00000000,
      GSVector8i 0xffffffff 0xffffffff 0xffffffff 0x0000ffff 0x00000000 0x00000000 0x00000000 0x00000000,
      GSVector8i 0xffffffff 0xffffffff 0xffffffff 0x00ffffff 0x00000000 0x00000000 0x00000000 0x00000000,
      GSVector8i 0xffffffff 0xffffffff 0xffffffff 0xffffffff 0x00000000 0x00000000 0x00000000 0x00000000,
      GSVector8i 0xffffffff 0xffffffff 0xffffffff 0xffffffff 0x000000ff 0x00000000 0x00000000 0x00000000,
      GSVector8i 0xffffffff 0xffffffff 0xffffffff 0xffffffff 0x0000ffff 0x00000000 0x00000000 0x00000000,
      GSVector8i 0xffffffff 0xffffffff 0xffffffff 0xffffffff 0x00ffffff 0x00000000 0x00000000 0x00000000,
      GSVector8i 0xffffffff 0xffffffff 0xffffffff 0xffffffff 0xffffffff 0x00000000 0x00000000 0x00000000,
      GSVector8i 0xffffffff 0xffffffff 0xffffffff 0xffffffff 0xffffffff 0x000000ff 0x00000000 0x00000000,
      GSVector8i 0xffffffff 0xffffffff 0xffffffff 0xffffffff 0xffffffff 0x0000ffff 0x00000000 0x00000000,
      GSVector8i 0xffffffff 0xffffffff 0xffffffff 0xffffffff 0xffffffff 0x00ffffff 0x00000000 0x00000000,
      GSVector8i 0xffffffff 0xffffffff 0xffffffff 0xffffffff 0xffffffff 0xffffffff 0x00000000 0x00000000,
      GSVector8i 0xffffffff 0xffffffff 0xffffffff 0xffffffff 0xffffffff 0xffffffff 0x000000ff 0x00000000,
      GSVector8i 0xffffffff 0xffffffff 0xffffffff 0xffffffff 0xffffffff 0xffffffff 0x0000ffff 0x00000000,
      GSVector8i 0xffffffff 0xffffffff 0xffffffff 0xffffffff 0xffffffff 0xffffffff 0x00ffffff 0x00000000,
      GSVector8i 0xffffffff 0xffffffff 0xffffffff 0xffffffff 0xffffffff 0xffffffff 0xffffffff 0x00000000,
      GSVector8i 0xffffffff 0xffffffff 0xffffffff 0xffffffff 0xffffffff 0xffffffff 0xffffffff 0x000000ff,
      GSVector8i 0xffffffff 0xffffffff 0xffffffff 0xffffffff 0xffffffff 0xffffffff 0xffffffff 0x0000ffff,
      GSVector8i 0xffffffff 0xffffffff 0xffffffff 0xffffffff 0xffffffff 0xffffffff 0xffffffff 0x00ffffff,
      GSVector8i 0xffffffff 0xffffffff 0xffffffff 0xffffffff 0xffffffff 0xffffffff 0xffffffff 0xffffffff]"

definition GSVector8i_x0f :: "GSVector8i list" where
  "GSVector8i_x0f =
     [GSVector8i 0x00000000 0x00000000 0x00000000 0x00000000 0x00000000 0x00000000 0x00000000 0x00000000,
      GSVector8i 0x0000000f 0x00000000 0x00000000 0x00000000 0x00000000 0x00000000 0x00000000 0x00000000,
      GSVector8i 0x00000f0f 0x00000000 0x00000000 0x00000000 0x00000000 0x00000000 0x00000000 0x00000000,
      GSVector8i 0x000f0f0f 0x00000000 0x00000000 0x00000000 0x00000000 0x00000000 0x00000000 0x00000000,
      GSVector8i 0x0f0f0f0f 0x00000000 0x00000000 0x00000000 0x00000000 0x00000000 0x00000000 0x00000000,
      GSVector8i 0x0f0f0f0f 0x0000000f 0x00000000 0x00000000 0x00000000 0x00000000 0x00000000 0x00000000,
      GSVector8i 0x0f0f0f0f 0x00000f0f 0x00000000 0x00000000 0x00000000 0x00000000 0x00000000 0x00000000,
      GSVector8i 0x0f0f0f0f 0x000f0f0f 0x00000000 0x00000000 0x00000000 0x00000000 0x00000000 0x00000000,
      GSVector8i 0x0f0f0f0f 0x0f0f0f0f 0x00000000 0x00000000 0x00000000 0x00000000 0x00000000 0x00000000,
      GSVector8i 0x0f0f0f0f 0x0f0f0f0f 0x0000000f 0x00000000 0x00000000 0x00000000 0x00000000 0x00000000,
      GSVector8i 0x0f0f0f0f 0x0f0f0f0f 0x00000f0f 0x00000000 0x00000000 0x00000000 0x00000000 0x00000000,
      GSVector8i 0x0f0f0f0f 0x0f0f0f0f 0x000f0f0f 0x00000000 0x00000000 0x00000000 0x00000000 0x00000000,
      GSVector8i 0x0f0f0f0f 0x0f0f0f0f 0x0f0f0f0f 0x00000000 0x00000000 0x00000000 0x00000000 0x00000000,
      GSVector8i 0x0f0f0f0f 0x0f0f0f0f 0x0f0f0f0f 0x0000000f 0x00000000 0x00000000 0x00000000 0x00000000,
      GSVector8i 0x0f0f0f0f 0x0f0f0f0f 0x0f0f0f0f 0x00000f0f 0x00000000 0x00000000 0x00000000 0x00000000,
      GSVector8i 0x0f0f0f0f 0x0f0f0f0f 0x0f0f0f0f 0x000f0f0f 0x00000000 0x00000000 0x00000000 0x00000000,
      GSVector8i 0x0f0f0f0f 0x0f0f0f0f 0x0f0f0f0f 0x0f0f0f0f 0x00000000 0x00000000 0x00000000 0x00000000,
      GSVector8i 0x0f0f0f0f 0x0f0f0f0f 0x0f0f0f0f 0x0f0f0f0f 0x0000000f 0x00000000 0x00000000 0x00000000,
      GSVector8i 0x0f0f0f0f 0x0f0f0f0f 0x0f0f0f0f 0x0f0f0f0f 0x00000f0f 0x00000000 0x00000000 0x00000000,
      GSVector8i 0x0f0f0f0f 0x0f0f0f0f 0x0f0f0f0f 0x0f0f0f0f 0x000f0f0f 0x00000000 0x00000000 0x00000000,
      GSVector8i 0x0f0f0f0f 0x0f0f0f0f 0x0f0f0f0f 0x0f0f0f0f 0x0f0f0f0f 0x00000000 0x00000000 0x00000000,
      GSVector8i 0x0f0f0f0f 0x0f0f0f0f 0x0f0f0f0f 0x0f0f0f0f 0x0f0f0f0f 0x0000000f 0x00000000 0x00000000,
      GSVector8i 0x0f0f0f0f 0x0f0f0f0f 0x0f0f0f0f 0x0f0f0f0f 0x0f0f0f0f 0x00000f0f 0x00000000 0x00000000,
      GSVector8i 0x0f0f0f0f 0x0f0f0f0f 0x0f0f0f0f 0x0f0f0f0f 0x0f0f0f0f 0x000f0f0f 0x00000000 0x00000000,
      GSVector8i 0x0f0f0f0f 0x0f0f0f0f 0x0f0f0f0f 0x0f0f0f0f 0x0f0f0f0f 0x0f0f0f0f 0x00000000 0x00000000,
      GSVector8i 0x0f0f0f0f 0x0f0f0f0f 0x0f0f0f0f 0x0f0f0f0f 0x0f0f0f0f 0x0f0f0f0f 0x0000000f 0x00000000,
      GSVector8i 0x0f0f0f0f 0x0f0f0f0f 0x0f0f0f0f 0x0f0f0f0f 0x0f0f0f0f 0x0f0f0f0f 0x00000f0f 0x00000000,
      GSVector8i 0x0f0f0f0f 0x0f0f0f0f 0x0f0f0f0f 0x0f0f0f0f 0x0f0f0f0f 0x0f0f0f0f 0x000f0f0f 0x00000000,
      GSVector8i 0x0f0f0f0f 0x0f0f0f0f 0x0f0f0f0f 0x0f0f0f0f 0x0f0f0f0f 0x0f0f0f0f 0x0f0f0f0f 0x00000000,
      GSVector8i 0x0f0f0f0f 0x0f0f0f0f 0x0f0f0f0f 0x0f0f0f0f 0x0f0f0f0f 0x0f0f0f0f 0x0f0f0f0f 0x0000000f,
      GSVector8i 0x0f0f0f0f 0x0f0f0f0f 0x0f0f0f0f 0x0f0f0f0f 0x0f0f0f0f 0x0f0f0f0f 0x0f0f0f0f 0x00000f0f,
      GSVector8i 0x0f0f0f0f 0x0f0f0f0f 0x0f0f0f0f 0x0f0f0f0f 0x0f0f0f0f 0x0f0f0f0f 0x0f0f0f0f 0x000f0f0f,
      GSVector8i 0x0f0f0f0f 0x0f0f0f0f 0x0f0f0f0f 0x0f0f0f0f 0x0f0f0f0f 0x0f0f0f0f 0x0f0f0f0f 0x0f0f0f0f]"

definition GSVector4i_InitVectors :: "GSVector4i mask_tables \<Rightarrow> GSVector4i mask_tables" where
  "GSVector4i_InitVectors st =
     (let st1 = st\<lparr>m_xff := copy_table 0 GSVector4i_xff (m_xff st)\<rparr>
      in st1\<lparr>m_x0f := copy_table 0 GSVector4i_x0f (m_x0f st1)\<rparr>)"

definition GSVector8i_InitVectors :: "GSVector8i mask_tables \<Rightarrow> GSVector8i mask_tables" where
  "GSVector8i_InitVectors st =
     (let st1 = st\<lparr>m_xff := copy_table 0 GSVector8i_xff (m_xff st)\<rparr>
      in st1\<lparr>m_x0f := copy_table 0 GSVector8i_x0f (m_x0f st1)\<rparr>)"


text \<open>The bytes of a mask of width \<open>w\<close> whose low \<open>n\<close> bytes are \<open>b\<close>, and the bytes of a vector.\<close>

definition low_bytes :: "nat \<Rightarrow> nat \<Rightarrow> u8 \<Rightarrow> u8 list" where
  "low_bytes w n b = map (\<lambda>k. if k < n then b else 0) [0..<w]"

definition bytes4 :: "GSVector4i \<Rightarrow> u8 list" where
  "bytes4 v = map (u8_4i v) [0..<16]"

definition bytes8 :: "GSVector8i \<Rightarrow> u8 list" where
  "bytes8 v = map (u8_8i v) [0..<32]"


definition tables4_zero :: "GSVector4i mask_tables" where
  "tables4_zero = \<lparr>m_xff = (\<lambda>n. GSVector4i 0 0 0 0), m_x0f = (\<lambda>n. GSVector4i 0 0 0 0)\<rparr>"

definition tables8_zero :: "GSVector8i mask_tables" where
  "tables8_zero =
     \<lparr>m_xff = (\<lambda>n. GSVector8i 0 0 0 0 0 0 0 0), m_x0f = (\<lambda>n. GSVector8i 0 0 0 0 0 0 0 0)\<rparr>"

section \<open>The FIFO mapping (plugins/GS/GS.cpp, fifo_alloc and fifo_free)\<close>

text \<open>
  \<^verbatim>\<open>fifo_alloc\<close> and \<^verbatim>\<open>fifo_free\<close> exist twice in \<^verbatim>\<open>GS.cpp\<close>: under \<^verbatim>\<open>_WIN32\<close> and, after
  \<^verbatim>\<open>#else\<close>, for POSIX. Both are sequences of calls into the operating system. The
  embedding keeps the statics of each (\<^verbatim>\<open>s_shm_fd\<close>; \<^verbatim>\<open>s_fh\<close> and \<^verbatim>\<open>s_Next\<close>), records
  every system call with its arguments and its result in the order of the calls, and takes
  the results of the calls that can fail from a record of answers. Pointers and \<^verbatim>\<open>size_t\<close>
  are 64-bit words; the null pointer is \<open>0\<close> and \<^verbatim>\<open>MAP_FAILED\<close> is \<open>(void*)-1\<close>.
\<close>

subsection \<open>POSIX\<close>

type_synonym size_t = "64 word"

datatype syscall =
    Sys_shm_open int
  | Sys_shm_unlink
  | Sys_ftruncate int size_t
  | Sys_mmap "size_t option" size_t bool int size_t
  | Sys_munmap size_t size_t
  | Sys_close int

record posix_answers =
  shm_open_fd :: int
  mmap_base :: size_t
  mmap_fixed_ok :: "nat \<Rightarrow> bool"

record posix_state =
  s_shm_fd :: int
  syscalls :: "syscall list"

definition MAP_FAILED :: size_t where
  "MAP_FAILED = - 1"

text \<open>
  \<^verbatim>\<open>mmap(base, size, PROT_READ | PROT_WRITE, MAP_SHARED | MAP_FIXED, s_shm_fd, 0)\<close> for
  segment \<open>i\<close>: the kernel maps at \<open>base\<close> or fails.
\<close>

definition mmap_fixed ::
  "posix_answers \<Rightarrow> nat \<Rightarrow> size_t \<Rightarrow> size_t \<Rightarrow> posix_state \<Rightarrow> size_t \<times> posix_state" where
  "mmap_fixed k i base len s =
     (let res = (if mmap_fixed_ok k i then base else MAP_FAILED)
      in (res, s\<lparr>syscalls := syscalls s @ [Sys_mmap (Some base) len True (s_shm_fd s) res]\<rparr>))"

text \<open>
  The loop \<^verbatim>\<open>for (size_t i = 1; i < repeat; i++)\<close> of the POSIX \<^verbatim>\<open>fifo_alloc\<close>. Its body
  assigns the result of \<^verbatim>\<open>mmap\<close> to a local variable that is never read.
\<close>

function fifo_map_loop ::
  "posix_answers \<Rightarrow> size_t \<Rightarrow> size_t \<Rightarrow> size_t \<Rightarrow> nat \<Rightarrow> posix_state \<Rightarrow> posix_state" where
  "fifo_map_loop k sz repeat fifo i s =
     (if i < unat repeat
      then fifo_map_loop k sz repeat fifo (Suc i) (snd (mmap_fixed k i (fifo + sz * of_nat i) sz s))
      else s)"
  by pat_completeness auto
termination
  by (relation "measure (\<lambda>(k, sz, repeat, fifo, i, s). unat repeat - i)") auto

declare fifo_map_loop.simps [simp del]

definition fifo_alloc_posix ::
  "posix_answers \<Rightarrow> size_t \<Rightarrow> size_t \<Rightarrow> posix_state \<Rightarrow> size_t \<times> posix_state" where
  "fifo_alloc_posix k sz repeat s0 =
     (let s1 = s0\<lparr>s_shm_fd := shm_open_fd k, syscalls := syscalls s0 @ [Sys_shm_open (shm_open_fd k)]\<rparr>
      in if s_shm_fd s1 = - 1 then (0, s1)
         else
           let s2 = s1\<lparr>syscalls := syscalls s1 @
                      [Sys_shm_unlink, Sys_ftruncate (s_shm_fd s1) (repeat * sz),
                       Sys_mmap None (sz * repeat) False (s_shm_fd s1) (mmap_base k)]\<rparr>;
               fifo = mmap_base k
           in (fifo, fifo_map_loop k sz repeat fifo 1 s2))"

definition fifo_free_posix :: "size_t \<Rightarrow> size_t \<Rightarrow> size_t \<Rightarrow> posix_state \<Rightarrow> posix_state" where
  "fifo_free_posix ptr sz repeat s =
     (if s_shm_fd s < 0 then s
      else s\<lparr>s_shm_fd := - 1,
             syscalls := syscalls s @ [Sys_munmap ptr (sz * repeat), Sys_close (s_shm_fd s)]\<rparr>)"

definition posix_initial :: posix_state where
  "posix_initial = \<lparr>s_shm_fd = - 1, syscalls = []\<rparr>"

definition answers_fixed_fails :: posix_answers where
  "answers_fixed_fails = \<lparr>shm_open_fd = 3, mmap_base = 0x7F0000000000, mmap_fixed_ok = (\<lambda>i. False)\<rparr>"

fun releases :: "syscall \<Rightarrow> bool" where
  "releases (Sys_munmap p len) = True"
| "releases (Sys_close fd) = True"
| "releases c = False"

subsection \<open>Windows\<close>

text \<open>
  The answers of \<^verbatim>\<open>MapViewOfFile\<close> and \<^verbatim>\<open>MapViewOfFileEx\<close> may differ from call to call; they
  are functions of the number of system calls made so far. \<^verbatim>\<open>MapViewOfFileEx\<close> maps at the
  address it is given or returns \<^verbatim>\<open>NULL\<close>.
\<close>

datatype wincall =
    Win_CreateFileMapping size_t nat
  | Win_MapViewOfFile nat size_t size_t
  | Win_MapViewOfFileEx nat size_t size_t size_t
  | Win_UnmapViewOfFile size_t
  | Win_CloseHandle nat
  | Win_VirtualFree size_t

record win_answers =
  CreateFileMapping_result :: nat
  MapViewOfFile_result :: "nat \<Rightarrow> size_t"
  MapViewOfFileEx_ok :: "nat \<Rightarrow> bool"

record win_state =
  s_fh :: nat
  s_Next :: "nat \<Rightarrow> size_t"
  wincalls :: "wincall list"

definition MapViewOfFile :: "win_answers \<Rightarrow> size_t \<Rightarrow> win_state \<Rightarrow> size_t \<times> win_state" where
  "MapViewOfFile k sz s =
     (let r = MapViewOfFile_result k (length (wincalls s))
      in (r, s\<lparr>wincalls := wincalls s @ [Win_MapViewOfFile (s_fh s) sz r]\<rparr>))"

definition MapViewOfFileEx :: "win_answers \<Rightarrow> size_t \<Rightarrow> size_t \<Rightarrow> win_state \<Rightarrow> size_t \<times> win_state" where
  "MapViewOfFileEx k sz base s =
     (let r = (if MapViewOfFileEx_ok k (length (wincalls s)) then base else 0)
      in (r, s\<lparr>wincalls := wincalls s @ [Win_MapViewOfFileEx (s_fh s) sz base r]\<rparr>))"

definition UnmapViewOfFile :: "size_t \<Rightarrow> win_state \<Rightarrow> win_state" where
  "UnmapViewOfFile p s = s\<lparr>wincalls := wincalls s @ [Win_UnmapViewOfFile p]\<rparr>"

text \<open>The loop \<^verbatim>\<open>for (size_t i = 1; i < ARRAY_SIZE(s_Next); i++)\<close> of \<^verbatim>\<open>fifo_free\<close>.\<close>

function free_next_loop :: "nat \<Rightarrow> win_state \<Rightarrow> win_state" where
  "free_next_loop i s =
     (if i < 8
      then free_next_loop (Suc i)
             (if s_Next s i \<noteq> 0
              then (UnmapViewOfFile (s_Next s i) s)\<lparr>s_Next := (s_Next s)(i := 0)\<rparr>
              else s)
      else s)"
  by pat_completeness auto
termination
  by (relation "measure (\<lambda>(i, s). 8 - i)") auto

declare free_next_loop.simps [simp del]

definition fifo_free_win32 :: "size_t \<Rightarrow> size_t \<Rightarrow> size_t \<Rightarrow> win_state \<Rightarrow> win_state" where
  "fifo_free_win32 p sz repeat s =
     (if s_fh s = 0
      then (if p \<noteq> 0 then s\<lparr>wincalls := wincalls s @ [Win_VirtualFree p]\<rparr> else s)
      else
        (let s1 = free_next_loop 1 (UnmapViewOfFile p s)
         in s1\<lparr>wincalls := wincalls s1 @ [Win_CloseHandle (s_fh s1)], s_fh := 0\<rparr>))"

text \<open>
  \<^verbatim>\<open>do { UnmapViewOfFile(s_Next[i]); s_Next[i] = 0; } while (--i > 0);\<close> The loop is
  entered with \<open>i\<close> at least 1 and leaves \<open>i\<close> at 0.
\<close>

fun unmap_down :: "nat \<Rightarrow> win_state \<Rightarrow> win_state" where
  "unmap_down 0 s = s"
| "unmap_down (Suc n) s =
     (let s' = (UnmapViewOfFile (s_Next s (Suc n)) s)\<lparr>s_Next := (s_Next s)(Suc n := 0)\<rparr>
      in if n > 0 then unmap_down n s' else s')"

text \<open>
  The loop \<^verbatim>\<open>for (size_t i = 1; i < repeat; i++)\<close> of the Windows \<^verbatim>\<open>fifo_alloc\<close>, with
  \<^verbatim>\<open>mmap_segment_failed\<close> as \<open>failed\<close>. After a failed attempt the \<^verbatim>\<open>do\<close> loop has left
  \<open>i\<close> at 0 and the increment of the \<^verbatim>\<open>for\<close> loop continues at 1.
\<close>

function win_map_loop ::
  "win_answers \<Rightarrow> size_t \<Rightarrow> size_t \<Rightarrow> nat \<Rightarrow> nat \<Rightarrow> size_t \<Rightarrow> win_state \<Rightarrow> size_t \<times> win_state" where
  "win_map_loop k sz repeat i failed fifo s =
     (if i < unat repeat
      then
        (let base = fifo + sz * of_nat i;
             r = fst (MapViewOfFileEx k sz base s);
             s2 = (snd (MapViewOfFileEx k sz base s))\<lparr>s_Next := (s_Next s)(i := r)\<rparr>
         in if r \<noteq> base
            then
              (if failed + 1 > 4 then (0, fifo_free_win32 fifo sz repeat s2)
               else win_map_loop k sz repeat 1 (failed + 1)
                      (fst (MapViewOfFile k sz (unmap_down i s2)))
                      (snd (MapViewOfFile k sz (unmap_down i s2))))
            else win_map_loop k sz repeat (Suc i) failed fifo s2)
      else (fifo, s))"
  by pat_completeness auto
termination
  by (relation "measures [\<lambda>(k, sz, repeat, i, failed, fifo, s). 5 - failed,
                           \<lambda>(k, sz, repeat, i, failed, fifo, s). unat repeat - i]") auto

declare win_map_loop.simps [simp del]

definition fifo_alloc_win32 ::
  "win_answers \<Rightarrow> size_t \<Rightarrow> size_t \<Rightarrow> win_state \<Rightarrow> size_t \<times> win_state" where
  "fifo_alloc_win32 k sz repeat s0 =
     (if unat repeat \<ge> 8 then (0, s0)
      else
        (let s1 = s0\<lparr>s_fh := CreateFileMapping_result k,
                     wincalls := wincalls s0 @ [Win_CreateFileMapping sz (CreateFileMapping_result k)]\<rparr>
         in if s_fh s1 = 0 then (0, s1)
            else win_map_loop k sz repeat 1 0 (fst (MapViewOfFile k sz s1)) (snd (MapViewOfFile k sz s1))))"

definition win_initial :: win_state where
  "win_initial = \<lparr>s_fh = 0, s_Next = (\<lambda>i. 0), wincalls = []\<rparr>"

definition win_answers_ex_fails :: win_answers where
  "win_answers_ex_fails =
     \<lparr>CreateFileMapping_result = 7, MapViewOfFile_result = (\<lambda>n. 0x10000 * (1 + of_nat n)),
      MapViewOfFileEx_ok = (\<lambda>n. False)\<rparr>"


section \<open>Properties of the lifecycle\<close>

lemma GSopen_internal_unfold:
  "GSopen_internal h renderer threads basemem s0 =
     (let s2 = GSopen_teardown renderer s0;
          dev = \<lparr>dev_id = next_obj s2, dev_class = device_class_for (WIN32 h) renderer\<rparr>;
          s3 = s2\<lparr>next_obj := Suc (next_obj s2), heap_log := heap_log s2 @ [New_Device (next_obj s2)]\<rparr>
      in case GSopen_renderer h renderer threads s3 of
           Inl e \<Rightarrow> (Inl e, s3)
         | Inr s4 \<Rightarrow>
             (case s_gs s4 of None \<Rightarrow> (Inr (- 1), s4) | Some r \<Rightarrow> GSopen_bind h basemem dev r s4))"
  by (simp add: GSopen_internal_def new_GSDevice_def Let_def)

lemmas open_defs = GSopen_internal_unfold GSopen_teardown_def GSopen_renderer_def GSopen_bind_def
  new_GSRenderer_def delete_s_gs_def CreateDevice_def SetRegsMem_def GSclose_def Let_def

lemma GSopen_internal_variant [simp]:
  "m_current_renderer_type (snd (GSopen_internal h renderer threads basemem s)) = renderer"
  by (auto simp: open_defs split: option.splits sum.splits)

lemma GSopen_internal_toggle [simp]:
  "stored_toggle_state (snd (GSopen_internal h renderer threads basemem s)) = stored_toggle_state s"
  by (auto simp: open_defs split: option.splits sum.splits)

lemma GSopen_internal_returns:
  "fst (GSopen_internal h renderer threads basemem s) = Inr rc \<Longrightarrow>
   \<exists>r. s_gs (snd (GSopen_internal h renderer threads basemem s)) = Some r"
  by (auto simp: open_defs split: option.splits sum.splits if_splits)

lemma GSopen_internal_throws:
  "fst (GSopen_internal h renderer threads basemem s) = Inl e \<Longrightarrow>
   s_gs (snd (GSopen_internal h renderer threads basemem s)) = None"
  by (auto simp: open_defs split: option.splits sum.splits if_splits)

lemma GSopen_internal_device:
  "s_gs (snd (GSopen_internal h renderer threads basemem s)) = Some r \<Longrightarrow>
   m_dev r = None \<or>
   (\<exists>d. m_dev r = Some d \<and> dev_id d < next_obj (snd (GSopen_internal h renderer threads basemem s)))"
  by (auto simp: open_defs split: option.splits sum.splits if_splits)

lemma GSopen_internal_regs:
  "s_gs (snd (GSopen_internal h renderer threads basemem s)) = Some r \<Longrightarrow> m_regs r = Some basemem"
  by (auto simp: open_defs split: option.splits sum.splits if_splits)

subsection \<open>GSclose\<close>

text \<open>
  C6. \<^verbatim>\<open>GSclose\<close> called while \<^verbatim>\<open>s_gs\<close> is null changes nothing. Otherwise it resets and
  deletes the Device of the Renderer and nothing else: the Renderer stays the object it
  was, with \<^verbatim>\<open>m_dev\<close> null and every other field as before; the heap log grows by the
  reset and the deletion of that Device only (by nothing when the Renderer held none), and
  the other statics keep their values.
\<close>

theorem GSclose_frame:
  "(s_gs s = None \<longrightarrow> GSclose s = s) \<and>
   (\<forall>r. s_gs s = Some r \<longrightarrow>
      s_gs (GSclose s) = Some (r\<lparr>m_dev := None\<rparr>) \<and>
      heap_log (GSclose s) = heap_log s @
        (case m_dev r of None \<Rightarrow> [] | Some d \<Rightarrow> [Reset_Device (dev_id d), Delete_Device (dev_id d)]) \<and>
      is_d3d (GSclose s) = is_d3d s \<and>
      m_current_renderer_type (GSclose s) = m_current_renderer_type s \<and>
      stored_toggle_state (GSclose s) = stored_toggle_state s \<and>
      next_obj (GSclose s) = next_obj s)"
  by (simp add: GSclose_def ResetDevice_def split: option.splits)

theorem GSclose_frame_witness:
  "GSclose GS_initial = GS_initial \<and>
   s_gs (GSclose opened_example) =
     Some \<lparr>gs_id = 1, gs_class = GSRendererOGL, m_regs = Some 4096, m_dev = None, m_calls = []\<rparr> \<and>
   heap_log (GSclose opened_example) = [New_Device 0, New_Renderer 1, Reset_Device 0, Delete_Device 0]"
  using GSclose_frame [of GS_initial] GSclose_frame [of opened_example]
  by (simp add: GS_initial_def opened_example_def)

subsection \<open>Failure of CreateDevice\<close>



text \<open>
  An exception does leave \<^verbatim>\<open>_GSopen\<close> when the entry \<^verbatim>\<open>extrathreads\<close> of the configuration
  is not a number and a software Renderer has to be constructed; \<^verbatim>\<open>CreateDevice\<close> is then
  never called.
\<close>

lemma GSopen_internal_exception:
  "GSopen_internal ((host_gl True)\<lparr>m_current_configuration := (\<lambda>entry. ''auto'')\<rparr>)
     OGL_SW (- 1) 4096 GS_initial =
     (Inl invalid_argument,
      \<lparr>is_d3d = False, s_gs = None, m_current_renderer_type = OGL_SW,
       stored_toggle_state = False, next_obj = 1, heap_log = [New_Device 0]\<rparr>)"
  by (simp add: open_defs host_gl_def default_configuration_def GS_initial_def device_class_for_def
      renderer_class_for_def sets_is_d3d_def GetConfigI_def stoi_def isspace_def isdigit_def)

subsection \<open>Opening twice with the same variant\<close>

text \<open>
  C1, as the claim states it, fails: after two calls of \<^verbatim>\<open>_GSopen\<close> with the same variant
  and the same register block the Renderer is the same object, but its Device is not the
  Device it held after the first call.
\<close>

theorem GSopen_twice_counterexample:
  "\<not> (renderer_identity (snd (GSopen_internal (host_gl True) OGL_HW (- 1) 4096
          (snd (GSopen_internal (host_gl True) OGL_HW (- 1) 4096 GS_initial)))) =
        renderer_identity (snd (GSopen_internal (host_gl True) OGL_HW (- 1) 4096 GS_initial)) \<and>
       device_identity (snd (GSopen_internal (host_gl True) OGL_HW (- 1) 4096
          (snd (GSopen_internal (host_gl True) OGL_HW (- 1) 4096 GS_initial)))) =
        device_identity (snd (GSopen_internal (host_gl True) OGL_HW (- 1) 4096 GS_initial)))"
  by (simp add: device_identity_def renderer_identity_def open_defs host_gl_def default_configuration_def GS_initial_def device_class_for_def
      renderer_class_for_def sets_is_d3d_def GetConfigI_def stoi_def isspace_def isdigit_def)

text \<open>
  C1, amended. Two calls of \<^verbatim>\<open>_GSopen\<close> in a row with the same variant and the same
  register block leave the Renderer the object it was, with the fields it had, and the
  current variant unchanged; the second call is not a no-op: it constructs a new Device,
  which is not the Device the Renderer held, and the Renderer ends holding the new Device
  when \<^verbatim>\<open>CreateDevice\<close> succeeds and no Device when it fails (\<^verbatim>\<open>GSclose\<close> then resets and
  deletes the Device it held). The second call returns 0 or \<^verbatim>\<open>-1\<close> accordingly. This is
  so whenever the first call returns; a first call that an exception of \<^verbatim>\<open>GetConfigI\<close>
  leaves has constructed no Renderer.
\<close>

theorem GSopen_twice_same_variant:
  "let s1 = snd (GSopen_internal h1 V t1 p s0);
       s2 = snd (GSopen_internal h2 V t2 p s1)
   in case fst (GSopen_internal h1 V t1 p s0) of
        Inl e \<Rightarrow> s_gs s1 = None
      | Inr rc \<Rightarrow>
         (\<exists>r. s_gs s1 = Some r \<and>
            s_gs s2 = Some (r\<lparr>m_dev := (if device_setup_ok h2
                                         then Some \<lparr>dev_id = next_obj s1,
                                                     dev_class = device_class_for (WIN32 h2) V\<rparr>
                                         else None)\<rparr>) \<and>
            renderer_identity s2 = renderer_identity s1 \<and>
            m_current_renderer_type s2 = m_current_renderer_type s1 \<and>
            device_identity s1 \<noteq> Some (next_obj s1) \<and>
            device_identity s2 = (if device_setup_ok h2 then Some (next_obj s1) else None) \<and>
            heap_log s2 = heap_log s1 @ New_Device (next_obj s1) #
              (if device_setup_ok h2 then []
               else case m_dev r of None \<Rightarrow> []
                    | Some d \<Rightarrow> [Reset_Device (dev_id d), Delete_Device (dev_id d)]) \<and>
            fst (GSopen_internal h2 V t2 p s1) = Inr (if device_setup_ok h2 then 0 else - 1))"
proof (cases "fst (GSopen_internal h1 V t1 p s0)")
  case (Inl e)
  then show ?thesis
    using GSopen_internal_throws [of h1 V t1 p s0 e] by (simp add: Let_def)
next
  case (Inr rc)
  define s1 where "s1 = snd (GSopen_internal h1 V t1 p s0)"
  define s2 where "s2 = snd (GSopen_internal h2 V t2 p s1)"
  obtain r where r: "s_gs s1 = Some r"
    unfolding s1_def using GSopen_internal_returns [OF Inr] by blast
  have v: "m_current_renderer_type s1 = V"
    unfolding s1_def by simp
  have regs: "m_regs r = Some p"
    using GSopen_internal_regs [of h1 V t1 p s0 r] r unfolding s1_def by simp
  have d: "device_identity s1 \<noteq> Some (next_obj s1)"
    using GSopen_internal_device [of h1 V t1 p s0 r] r unfolding s1_def [symmetric]
    by (auto simp: device_identity_def)
  have g: "s_gs s2 = Some (r\<lparr>m_dev := (if device_setup_ok h2
                                     then Some \<lparr>dev_id = next_obj s1,
                                                 dev_class = device_class_for (WIN32 h2) V\<rparr>
                                     else None)\<rparr>)"
    unfolding s2_def using r v regs by (simp add: open_defs ResetDevice_def)
  have l: "heap_log s2 = heap_log s1 @ New_Device (next_obj s1) #
          (if device_setup_ok h2 then []
           else case m_dev r of None \<Rightarrow> []
                | Some d \<Rightarrow> [Reset_Device (dev_id d), Delete_Device (dev_id d)])"
    unfolding s2_def using r v by (simp add: open_defs ResetDevice_def split: option.splits)
  have c: "m_current_renderer_type s2 = m_current_renderer_type s1"
    unfolding s2_def using v by simp
  have i: "renderer_identity s2 = renderer_identity s1"
    using r g by (simp add: renderer_identity_def)
  have j: "device_identity s2 = (if device_setup_ok h2 then Some (next_obj s1) else None)"
    using g by (simp add: device_identity_def)
  have k: "fst (GSopen_internal h2 V t2 p s1) = Inr (if device_setup_ok h2 then 0 else - 1)"
    using r v by (simp add: open_defs)
  from r g l c d i j k Inr show ?thesis
    unfolding Let_def s1_def [symmetric] s2_def [symmetric] by simp
qed

theorem GSopen_twice_same_variant_witness:
  "fst (GSopen_internal (host_gl True) OGL_HW (- 1) 4096 GS_initial) = Inr 0 \<and>
   snd (GSopen_internal (host_gl True) OGL_HW (- 1) 4096 GS_initial) = opened_example \<and>
   s_gs (snd (GSopen_internal (host_gl True) OGL_HW (- 1) 4096 opened_example)) =
     Some \<lparr>gs_id = 1, gs_class = GSRendererOGL, m_regs = Some 4096,
           m_dev = Some \<lparr>dev_id = 2, dev_class = GSDeviceOGL\<rparr>, m_calls = []\<rparr> \<and>
   device_identity opened_example = Some 0 \<and>
   device_identity (snd (GSopen_internal (host_gl True) OGL_HW (- 1) 4096 opened_example)) = Some 2 \<and>
   heap_log (snd (GSopen_internal (host_gl True) OGL_HW (- 1) 4096 opened_example)) =
     [New_Device 0, New_Renderer 1, New_Device 2]"
proof -
  have first: "GSopen_internal (host_gl True) OGL_HW (- 1) 4096 GS_initial = (Inr 0, opened_example)"
    by (simp add: opened_example_def open_defs host_gl_def default_configuration_def GS_initial_def device_class_for_def
      renderer_class_for_def sets_is_d3d_def GetConfigI_def stoi_def isspace_def isdigit_def)
  show ?thesis
    using GSopen_twice_same_variant [of "host_gl True" OGL_HW "- 1" 4096 GS_initial "host_gl True" "- 1"]
    unfolding first Let_def
    by (auto simp: opened_example_def device_identity_def host_gl_def device_class_for_def)
qed

subsection \<open>A change of variant through GSopen2\<close>

text \<open>
  \<^verbatim>\<open>_GSopen\<close> is static and \<^verbatim>\<open>GSopen2\<close> is its only caller. \<^verbatim>\<open>GSopen2\<close> writes the variant
  it selects into \<^verbatim>\<open>m_current_renderer_type\<close> before the call, so in every call the test
  \<^verbatim>\<open>m_current_renderer_type != renderer\<close> of \<^verbatim>\<open>_GSopen\<close> is false: whatever variant a call
  of \<^verbatim>\<open>GSopen2\<close> selects, a Renderer that exists is kept, with its class and the transfers
  it has received; only the Device is new.
\<close>

lemma GSopen2_keeps_renderer:
  assumes "s_gs s = Some r"
  shows "s_gs (snd (GSopen2 h flags basemem s)) =
           Some (r\<lparr>m_regs := Some basemem,
                   m_dev := (if device_setup_ok h
                             then Some \<lparr>dev_id = next_obj s,
                                         dev_class = device_class_for (WIN32 h)
                                           (m_current_renderer_type (GSopen2_select h flags s))\<rparr>
                             else None)\<rparr>)"
    and "heap_log (snd (GSopen2 h flags basemem s)) = heap_log s @ New_Device (next_obj s) #
           (if device_setup_ok h then []
            else case m_dev r of None \<Rightarrow> []
                 | Some d \<Rightarrow> [Reset_Device (dev_id d), Delete_Device (dev_id d)])"
proof -
  have a: "s_gs (GSopen2_select h flags s) = Some r"
    "next_obj (GSopen2_select h flags s) = next_obj s"
    "heap_log (GSopen2_select h flags s) = heap_log s"
    using assms by (simp_all add: GSopen2_select_def Let_def)
  show "s_gs (snd (GSopen2 h flags basemem s)) =
           Some (r\<lparr>m_regs := Some basemem,
                   m_dev := (if device_setup_ok h
                             then Some \<lparr>dev_id = next_obj s,
                                         dev_class = device_class_for (WIN32 h)
                                           (m_current_renderer_type (GSopen2_select h flags s))\<rparr>
                             else None)\<rparr>)"
    using a by (simp add: GSopen2_def open_defs ResetDevice_def)
  show "heap_log (snd (GSopen2 h flags basemem s)) = heap_log s @ New_Device (next_obj s) #
           (if device_setup_ok h then []
            else case m_dev r of None \<Rightarrow> []
                 | Some d \<Rightarrow> [Reset_Device (dev_id d), Delete_Device (dev_id d)])"
    using a by (simp add: GSopen2_def open_defs ResetDevice_def split: option.splits)
qed

text \<open>
  C2 at a change of variant. From the statics as \<^verbatim>\<open>GSdxApp::Init\<close> leaves them, with an
  OpenGL context and the renderer option set to hardware: \<^verbatim>\<open>GSopen2(0, p)\<close> opens
  \<^verbatim>\<open>OGL_HW\<close> with Device 0 and the \<^verbatim>\<open>GSRendererOGL\<close> object 1; \<^verbatim>\<open>GSgifTransfer\<close> hands that
  Renderer a transfer; \<^verbatim>\<open>GSopen2(4, p)\<close> then selects \<^verbatim>\<open>OGL_SW\<close>. After it the variant is
  \<^verbatim>\<open>OGL_SW\<close>, and the Renderer is still the \<^verbatim>\<open>GSRendererOGL\<close> object 1 with the transfer
  it received; no Renderer was deleted or constructed, Device 0 was not deleted, and the
  only new object is Device 2.
\<close>

theorem GSopen2_variant_change_keeps_renderer:
  "GSopen2 (host_gl True) 0 4096 GS_initial = (Inr 0, opened_example) \<and>
   GSgifTransfer 8192 5 opened_example = Some transferred_example \<and>
   GSopen2 (host_gl True) 4 4096 transferred_example =
     (Inr 0,
      \<lparr>is_d3d = False,
       s_gs = Some \<lparr>gs_id = 1, gs_class = GSRendererOGL, m_regs = Some 4096,
                    m_dev = Some \<lparr>dev_id = 2, dev_class = GSDeviceOGL\<rparr>,
                    m_calls = [Transfer_call 3 8192 5]\<rparr>,
       m_current_renderer_type = OGL_SW, stored_toggle_state = True, next_obj = 3,
       heap_log = [New_Device 0, New_Renderer 1, New_Device 2]\<rparr>)"
  by (simp add: GSopen2_def GSopen2_select_def toggle_state_def toggle_switch_def
      opened_example_def transferred_example_def GSgifTransfer_def Transfer_def
      open_defs host_gl_def default_configuration_def GS_initial_def device_class_for_def
      renderer_class_for_def sets_is_d3d_def GetConfigI_def stoi_def isspace_def isdigit_def)

subsection \<open>The toggle of GSopen2\<close>

lemma GSopen2_step:
  assumes "hw_host h"
  shows "m_current_renderer_type (snd (GSopen2 h flags basemem s)) =
           (if toggle_state flags \<noteq> stored_toggle_state s then OGL_SW else OGL_HW)"
    and "stored_toggle_state (snd (GSopen2 h flags basemem s)) = toggle_state flags"
  using assms
  by (auto simp: GSopen2_def GSopen2_select_def hw_host_def toggle_switch_def Let_def
      split: retro_hw_context_type.splits)

lemma GSopen2_calls_held:
  assumes "list_all (\<lambda>(h, flags, basemem). hw_host h \<and> toggle_state flags = b) cs"
    and "stored_toggle_state s = b"
  shows "cs \<noteq> [] \<longrightarrow> m_current_renderer_type (GSopen2_calls cs s) = OGL_HW"
    and "stored_toggle_state (GSopen2_calls cs s) = b"
  using assms
proof (induction cs arbitrary: s)
  case Nil
  { case 1 show ?case by simp }
  { case 2 then show ?case by simp }
next
  case (Cons c cs)
  obtain h flags basemem where c: "c = (h, flags, basemem)"
    by (cases c)
  { case 1
    then show ?case
      using Cons.IH(1) [of "snd (GSopen2 h flags basemem s)"] c
      by (cases cs) (auto simp: GSopen2_step) }
  { case 2
    then show ?case
      using Cons.IH(2) [of "snd (GSopen2 h flags basemem s)"] c
      by (auto simp: GSopen2_step) }
qed

text \<open>
  C3. With a host that forces no backend and a renderer option that selects hardware,
  starting from the current variant \<^verbatim>\<open>OGL_HW\<close>: a call of \<^verbatim>\<open>GSopen2\<close> whose bit 2 of
  \<open>flags\<close> differs from the stored one resolves to \<^verbatim>\<open>OGL_SW\<close>; the next call with the bit
  held resolves to \<^verbatim>\<open>OGL_HW\<close>; and after any run of further calls with the bit held the
  variant is still \<^verbatim>\<open>OGL_HW\<close>.
\<close>

theorem GSopen2_toggle_edge:
  assumes start: "m_current_renderer_type s0 = OGL_HW"
    and hw: "hw_host h1" "hw_host h2"
    and edge: "toggle_state f1 \<noteq> stored_toggle_state s0"
    and held2: "toggle_state f2 = toggle_state f1"
    and held: "list_all (\<lambda>(h, flags, basemem). hw_host h \<and> toggle_state flags = toggle_state f1) cs"
  shows "m_current_renderer_type (GSopen2_calls [(h1, f1, p1)] s0) = OGL_SW \<and>
         m_current_renderer_type (GSopen2_calls [(h1, f1, p1), (h2, f2, p2)] s0) = OGL_HW \<and>
         m_current_renderer_type (GSopen2_calls ((h1, f1, p1) # (h2, f2, p2) # cs) s0) = OGL_HW"
proof -
  have 1: "m_current_renderer_type (GSopen2_calls [(h1, f1, p1)] s0) = OGL_SW"
    using hw(1) edge by (simp add: GSopen2_step)
  have "list_all (\<lambda>(h, flags, basemem). hw_host h \<and> toggle_state flags = toggle_state f1)
          ((h2, f2, p2) # cs)"
    using hw(2) held2 held by simp
  then have 2: "m_current_renderer_type (GSopen2_calls ((h2, f2, p2) # cs') (snd (GSopen2 h1 f1 p1 s0))) = OGL_HW"
    if "list_all (\<lambda>(h, flags, basemem). hw_host h \<and> toggle_state flags = toggle_state f1) cs'" for cs'
    using GSopen2_calls_held(1) [of "toggle_state f1" "(h2, f2, p2) # cs'" "snd (GSopen2 h1 f1 p1 s0)"]
      that hw held2 by (simp add: GSopen2_step)
  show ?thesis
    using 1 2 [of "[]"] 2 [of cs] held by simp
qed

theorem GSopen2_toggle_edge_witness:
  "m_current_renderer_type opened_example = OGL_HW \<and> hw_host (host_gl True) \<and>
   toggle_state 4 \<noteq> stored_toggle_state opened_example \<and> toggle_state 0x104 = toggle_state 4 \<and>
   m_current_renderer_type (GSopen2_calls [(host_gl True, 4, 4096)] opened_example) = OGL_SW \<and>
   m_current_renderer_type
     (GSopen2_calls [(host_gl True, 4, 4096), (host_gl True, 0x104, 4096)] opened_example) = OGL_HW \<and>
   m_current_renderer_type
     (GSopen2_calls [(host_gl True, 4, 4096), (host_gl True, 0x104, 4096), (host_gl False, 4, 4096),
        (host_gl True, 4, 4096)] opened_example) = OGL_HW"
proof -
  have a: "m_current_renderer_type opened_example = OGL_HW"
    by (simp add: opened_example_def)
  have b: "hw_host (host_gl True)" "hw_host (host_gl False)"
    by (simp_all add: hw_host_def host_gl_def)
  have c: "toggle_state 4 \<noteq> stored_toggle_state opened_example"
    by (simp add: toggle_state_def opened_example_def)
  have d: "toggle_state 0x104 = toggle_state 4"
    by (simp add: toggle_state_def)
  have e: "list_all (\<lambda>(h, flags, basemem). hw_host h \<and> toggle_state flags = toggle_state 4)
             [(host_gl False, 4, 4096), (host_gl True, 4, 4096)]"
    using b by simp
  show ?thesis
    using GSopen2_toggle_edge [OF a b(1) b(1) c d e, of 4096 4096] a b c d by simp
qed

text \<open>
  C4 at the first call. The statics are as \<^verbatim>\<open>GSdxApp::Init\<close> leaves them: the variant is
  \<^verbatim>\<open>Undefined\<close> and the stored toggle is false. With a hardware configuration, \<open>flags = 0\<close>
  selects \<^verbatim>\<open>OGL_HW\<close>, and \<open>flags = 4\<close> selects \<^verbatim>\<open>OGL_SW\<close> and builds a software Renderer:
  the edge of the toggle is not ignored. \<^verbatim>\<open>GSopen2\<close> overwrites
  \<^verbatim>\<open>m_current_renderer_type\<close> before it tests it against \<^verbatim>\<open>Undefined\<close>.
\<close>

theorem GSopen2_first_call_toggle:
  "m_current_renderer_type GS_initial = Undefined \<and>
   stored_toggle_state GS_initial = False \<and>
   m_current_renderer_type (GSopen2_select (host_gl True) 0 GS_initial) = OGL_HW \<and>
   m_current_renderer_type (GSopen2_select (host_gl True) 4 GS_initial) = OGL_SW \<and>
   map_option gs_class (s_gs (snd (GSopen2 (host_gl True) 4 4096 GS_initial))) = Some (GSRendererSW 2)"
  by (simp add: GSopen2_def GSopen2_select_def toggle_state_def toggle_switch_def
      open_defs host_gl_def default_configuration_def GS_initial_def device_class_for_def
      renderer_class_for_def sets_is_d3d_def GetConfigI_def stoi_def isspace_def isdigit_def)

subsection \<open>The GIF entry points\<close>

text \<open>
  C8. With a Renderer present, each of the four entry points makes exactly one call of one
  transfer path: \<^verbatim>\<open>GSgifTransfer\<close> of path 3 with \<open>(mem, size)\<close>, \<^verbatim>\<open>GSgifTransfer1\<close> of
  path 0 with the buffer at \<open>mem + addr\<close> and the size \<open>(0x4000 - addr) / 16\<close> in \<^verbatim>\<open>u32\<close>
  arithmetic, \<^verbatim>\<open>GSgifTransfer2\<close> of path 1 and \<^verbatim>\<open>GSgifTransfer3\<close> of path 2 with
  \<open>(mem, size)\<close>; nothing else changes.
\<close>

theorem GSgifTransfer_paths:
  assumes "s_gs s = Some r"
  shows "GSgifTransfer mem sz s = Some (s\<lparr>s_gs := Some (Transfer 3 mem sz r)\<rparr>) \<and>
         GSgifTransfer1 mem addr s =
           Some (s\<lparr>s_gs := Some (Transfer 0 (mem + unat addr) ((0x4000 - addr) div 16) r)\<rparr>) \<and>
         GSgifTransfer2 mem sz s = Some (s\<lparr>s_gs := Some (Transfer 1 mem sz r)\<rparr>) \<and>
         GSgifTransfer3 mem sz s = Some (s\<lparr>s_gs := Some (Transfer 2 mem sz r)\<rparr>) \<and>
         (\<forall>path m n. m_calls (Transfer path m n r) = m_calls r @ [Transfer_call path m n])"
  using assms
  by (simp add: GSgifTransfer_def GSgifTransfer1_def GSgifTransfer2_def GSgifTransfer3_def Transfer_def)

theorem GSgifTransfer_paths_witness:
  "map_option (\<lambda>s. map_option m_calls (s_gs s)) (GSgifTransfer 8192 5 opened_example) =
     Some (Some [Transfer_call 3 8192 5]) \<and>
   map_option (\<lambda>s. map_option m_calls (s_gs s)) (GSgifTransfer1 8192 0x3FF0 opened_example) =
     Some (Some [Transfer_call 0 24560 1]) \<and>
   map_option (\<lambda>s. map_option m_calls (s_gs s)) (GSgifTransfer2 8192 5 opened_example) =
     Some (Some [Transfer_call 1 8192 5]) \<and>
   map_option (\<lambda>s. map_option m_calls (s_gs s)) (GSgifTransfer3 8192 5 opened_example) =
     Some (Some [Transfer_call 2 8192 5])"
  using GSgifTransfer_paths [of opened_example _ 8192 5 "0x3FF0"]
  by (simp add: opened_example_def Transfer_def)

subsection \<open>GSfreeze\<close>

text \<open>
  C10. For every mode other than \<^verbatim>\<open>FREEZE_SAVE\<close>, \<^verbatim>\<open>FREEZE_SIZE\<close> and \<^verbatim>\<open>FREEZE_LOAD\<close>,
  \<^verbatim>\<open>GSfreeze\<close> returns 0 and leaves the buffer and the state as they are, whatever the
  methods \<^verbatim>\<open>Freeze\<close> and \<^verbatim>\<open>Defrost\<close> would do: neither is called.
\<close>

theorem GSfreeze_other_mode:
  assumes "mode \<notin> {FREEZE_SAVE k, FREEZE_SIZE k, FREEZE_LOAD k}"
  shows "GSfreeze k Freeze Defrost mode data s = Some (0, data, s)"
  using assms by (simp add: GSfreeze_def)

theorem GSfreeze_other_mode_witness:
  "GSfreeze freeze_modes_example (\<lambda>r d b. (- 1, Suc d, r)) (\<lambda>r d. (- 1, r)) 3 (7 :: nat) opened_example =
     Some (0, 7, opened_example)"
  using GSfreeze_other_mode [of 3 freeze_modes_example _ _ "7 :: nat" opened_example]
  by (simp add: freeze_modes_example_def)

section \<open>Properties of the lane-mask tables\<close>

lemma xff4_rows: "map bytes4 GSVector4i_xff = map (\<lambda>n. low_bytes 16 n 0xff) [0..<17]"
  by (simp add: GSVector4i_xff_def bytes4_def low_bytes_def u8_4i_def lane_byte_def upt_rec)

lemma x0f4_rows: "map bytes4 GSVector4i_x0f = map (\<lambda>n. low_bytes 16 n 0x0f) [0..<17]"
  by (simp add: GSVector4i_x0f_def bytes4_def low_bytes_def u8_4i_def lane_byte_def upt_rec)


lemma xff8_rows: "map bytes8 GSVector8i_xff = map (\<lambda>n. low_bytes 32 n 0xff) [0..<33]"
  by (simp add: GSVector8i_xff_def bytes8_def low_bytes_def u8_8i_def lane_byte_def upt_rec)

lemma x0f8_rows: "map bytes8 GSVector8i_x0f = map (\<lambda>n. low_bytes 32 n 0x0f) [0..<33]"
  by (simp add: GSVector8i_x0f_def bytes8_def low_bytes_def u8_8i_def lane_byte_def upt_rec)

lemma copy_table_below: "k < n \<Longrightarrow> copy_table n src dst k = dst k"
proof (induction n src dst rule: copy_table.induct)
  case (1 n src dst)
  show ?case
  proof (cases "n < length src")
    case True
    have "copy_table n src dst k = copy_table (Suc n) src (dst(n := src ! n)) k"
      using True by (subst copy_table.simps) simp
    also have "\<dots> = (dst(n := src ! n)) k"
      using 1 True by (simp add: fun_upd_def)
    finally show ?thesis
      using 1(2) by simp
  next
    case False
    then show ?thesis
      by (subst copy_table.simps) simp
  qed
qed

lemma copy_table_at: "n \<le> k \<Longrightarrow> k < length src \<Longrightarrow> copy_table n src dst k = src ! k"
proof (induction n src dst rule: copy_table.induct)
  case (1 n src dst)
  have step: "copy_table n src dst k = copy_table (Suc n) src (dst(n := src ! n)) k"
    using 1(2,3) by (subst copy_table.simps) simp
  show ?case
  proof (cases "n = k")
    case True
    then show ?thesis
      using step copy_table_below [of k "Suc k" src "dst(k := src ! k)"] by simp
  next
    case False
    then have "copy_table (Suc n) src (dst(n := src ! n)) k = src ! k"
      using 1 by (simp add: fun_upd_def)
    then show ?thesis
      using step by simp
  qed
qed

lemma length_tables [simp]:
  "length GSVector4i_xff = 17" "length GSVector4i_x0f = 17"
  "length GSVector8i_xff = 33" "length GSVector8i_x0f = 33"
  by (simp_all add: GSVector4i_xff_def GSVector4i_x0f_def GSVector8i_xff_def GSVector8i_x0f_def)

lemma row_entry4:
  assumes rows: "map bytes4 tab = map (\<lambda>n. low_bytes 16 n b) [0..<length tab]"
    and n: "n < length tab" and k: "k < 16"
  shows "u8_4i (tab ! n) k = (if k < n then b else 0)"
proof -
  have "bytes4 (tab ! n) = map bytes4 tab ! n"
    using n by simp
  also have "\<dots> = low_bytes 16 n b"
    using n by (simp add: rows)
  finally have "bytes4 (tab ! n) ! k = low_bytes 16 n b ! k"
    by simp
  then show ?thesis
    using k by (simp add: bytes4_def low_bytes_def)
qed

lemma row_entry8:
  assumes rows: "map bytes8 tab = map (\<lambda>n. low_bytes 32 n b) [0..<length tab]"
    and n: "n < length tab" and k: "k < 32"
  shows "u8_8i (tab ! n) k = (if k < n then b else 0)"
proof -
  have "bytes8 (tab ! n) = map bytes8 tab ! n"
    using n by simp
  also have "\<dots> = low_bytes 32 n b"
    using n by (simp add: rows)
  finally have "bytes8 (tab ! n) ! k = low_bytes 32 n b ! k"
    by simp
  then show ?thesis
    using k by (simp add: bytes8_def low_bytes_def)
qed

lemma InitVectors4_tables:
  "n < 17 \<Longrightarrow> m_xff (GSVector4i_InitVectors st) n = GSVector4i_xff ! n"
  "n < 17 \<Longrightarrow> m_x0f (GSVector4i_InitVectors st) n = GSVector4i_x0f ! n"
  by (simp_all add: GSVector4i_InitVectors_def Let_def copy_table_at)

lemma InitVectors8_tables:
  "n < 33 \<Longrightarrow> m_xff (GSVector8i_InitVectors st) n = GSVector8i_xff ! n"
  "n < 33 \<Longrightarrow> m_x0f (GSVector8i_InitVectors st) n = GSVector8i_x0f ! n"
  by (simp_all add: GSVector8i_InitVectors_def Let_def copy_table_at)

text \<open>
  C5. After \<^verbatim>\<open>InitVectors\<close>, for every \<open>n\<close> from 0 to the width \<open>W\<close> in bytes (16 for
  \<^verbatim>\<open>GSVector4i\<close>, 32 for \<^verbatim>\<open>GSVector8i\<close>), the entry \<open>n\<close> of \<^verbatim>\<open>m_xff\<close> has its low \<open>n\<close> bytes
  equal to \<open>0xff\<close> and the other \<open>W - n\<close> bytes zero, and the entry \<open>n\<close> of \<^verbatim>\<open>m_x0f\<close> has its
  low \<open>n\<close> bytes equal to \<open>0x0f\<close> and the others zero; entry 0 of \<^verbatim>\<open>m_xff\<close> is all zero and
  entry \<open>W\<close> all ones. This holds whatever the arrays held before.
\<close>

theorem InitVectors_masks:
  "(\<forall>n\<le>16. \<forall>k<16.
      u8_4i (m_xff (GSVector4i_InitVectors st4) n) k = (if k < n then 0xff else 0) \<and>
      u8_4i (m_x0f (GSVector4i_InitVectors st4) n) k = (if k < n then 0x0f else 0)) \<and>
   (\<forall>n\<le>32. \<forall>k<32.
      u8_8i (m_xff (GSVector8i_InitVectors st8) n) k = (if k < n then 0xff else 0) \<and>
      u8_8i (m_x0f (GSVector8i_InitVectors st8) n) k = (if k < n then 0x0f else 0)) \<and>
   m_xff (GSVector4i_InitVectors st4) 0 = GSVector4i 0 0 0 0 \<and>
   m_xff (GSVector4i_InitVectors st4) 16 = GSVector4i (- 1) (- 1) (- 1) (- 1) \<and>
   m_xff (GSVector8i_InitVectors st8) 0 = GSVector8i 0 0 0 0 0 0 0 0 \<and>
   m_xff (GSVector8i_InitVectors st8) 32 = GSVector8i (- 1) (- 1) (- 1) (- 1) (- 1) (- 1) (- 1) (- 1)"
proof -
  have a: "u8_4i (m_xff (GSVector4i_InitVectors st4) n) k = (if k < n then 0xff else 0)"
    if "n \<le> 16" "k < 16" for n k
    using that row_entry4 [of GSVector4i_xff "0xff" n k] xff4_rows by (simp add: InitVectors4_tables)
  have b: "u8_4i (m_x0f (GSVector4i_InitVectors st4) n) k = (if k < n then 0x0f else 0)"
    if "n \<le> 16" "k < 16" for n k
    using that row_entry4 [of GSVector4i_x0f "0x0f" n k] x0f4_rows by (simp add: InitVectors4_tables)
  have c: "u8_8i (m_xff (GSVector8i_InitVectors st8) n) k = (if k < n then 0xff else 0)"
    if "n \<le> 32" "k < 32" for n k
    using that row_entry8 [of GSVector8i_xff "0xff" n k] xff8_rows by (simp add: InitVectors8_tables)
  have d: "u8_8i (m_x0f (GSVector8i_InitVectors st8) n) k = (if k < n then 0x0f else 0)"
    if "n \<le> 32" "k < 32" for n k
    using that row_entry8 [of GSVector8i_x0f "0x0f" n k] x0f8_rows by (simp add: InitVectors8_tables)
  have e: "m_xff (GSVector4i_InitVectors st4) 0 = GSVector4i 0 0 0 0"
    "m_xff (GSVector4i_InitVectors st4) 16 = GSVector4i (- 1) (- 1) (- 1) (- 1)"
    by (simp_all add: InitVectors4_tables) (simp_all add: GSVector4i_xff_def)
  have f: "m_xff (GSVector8i_InitVectors st8) 0 = GSVector8i 0 0 0 0 0 0 0 0"
    "m_xff (GSVector8i_InitVectors st8) 32 = GSVector8i (- 1) (- 1) (- 1) (- 1) (- 1) (- 1) (- 1) (- 1)"
    by (simp_all add: InitVectors8_tables) (simp_all add: GSVector8i_xff_def)
  from a b c d e f show ?thesis by blast
qed

theorem InitVectors_masks_witness:
  "u8_4i (m_xff (GSVector4i_InitVectors tables4_zero) 5) 4 = 0xff \<and>
   u8_4i (m_xff (GSVector4i_InitVectors tables4_zero) 5) 5 = 0 \<and>
   u8_4i (m_x0f (GSVector4i_InitVectors tables4_zero) 16) 15 = 0x0f \<and>
   u8_8i (m_xff (GSVector8i_InitVectors tables8_zero) 32) 31 = 0xff \<and>
   u8_8i (m_x0f (GSVector8i_InitVectors tables8_zero) 20) 19 = 0x0f \<and>
   u8_8i (m_x0f (GSVector8i_InitVectors tables8_zero) 20) 20 = 0"
proof -
  note m = InitVectors_masks [of tables4_zero tables8_zero]
  have a: "\<forall>n\<le>16. \<forall>k<16.
      u8_4i (m_xff (GSVector4i_InitVectors tables4_zero) n) k = (if k < n then 0xff else 0) \<and>
      u8_4i (m_x0f (GSVector4i_InitVectors tables4_zero) n) k = (if k < n then 0x0f else 0)"
    using m by blast
  have b: "\<forall>n\<le>32. \<forall>k<32.
      u8_8i (m_xff (GSVector8i_InitVectors tables8_zero) n) k = (if k < n then 0xff else 0) \<and>
      u8_8i (m_x0f (GSVector8i_InitVectors tables8_zero) n) k = (if k < n then 0x0f else 0)"
    using m by blast
  show ?thesis
    using a [rule_format, of 5 4] a [rule_format, of 5 5] a [rule_format, of 16 15]
      b [rule_format, of 32 31] b [rule_format, of 20 19] b [rule_format, of 20 20]
    by simp
qed

section \<open>Properties of the FIFO mapping\<close>

lemma fifo_map_loop_step:
  "i < unat repeat \<Longrightarrow>
   fifo_map_loop k sz repeat fifo i s =
     fifo_map_loop k sz repeat fifo (Suc i) (snd (mmap_fixed k i (fifo + sz * of_nat i) sz s))"
  by (subst fifo_map_loop.simps) simp

lemma fifo_map_loop_stop: "\<not> i < unat repeat \<Longrightarrow> fifo_map_loop k sz repeat fifo i s = s"
  by (subst fifo_map_loop.simps) simp

text \<open>
  C9 on the POSIX path, for \<^verbatim>\<open>fifo_alloc(4096, 2)\<close> when \<^verbatim>\<open>shm_open\<close> and the first \<^verbatim>\<open>mmap\<close>
  succeed and the \<^verbatim>\<open>MAP_FIXED\<close> mapping of segment 1 fails: the function returns the base
  address, not null; the failed call is the last system call; the first mapping stays and
  the descriptor stays open.
\<close>

theorem fifo_alloc_posix_ignores_failure:
  "fifo_alloc_posix answers_fixed_fails 4096 2 posix_initial =
     (0x7F0000000000,
      \<lparr>s_shm_fd = 3,
       syscalls = [Sys_shm_open 3, Sys_shm_unlink, Sys_ftruncate 3 8192,
                   Sys_mmap None 8192 False 3 0x7F0000000000,
                   Sys_mmap (Some 0x7F0000001000) 4096 True 3 MAP_FAILED]\<rparr>)"
  by (simp add: fifo_alloc_posix_def answers_fixed_fails_def posix_initial_def Let_def
      fifo_map_loop_step fifo_map_loop_stop mmap_fixed_def)

text \<open>
  More generally the POSIX \<^verbatim>\<open>fifo_alloc\<close> returns what the first \<^verbatim>\<open>mmap\<close> returned whenever
  \<^verbatim>\<open>shm_open\<close> succeeds, and makes no call of \<^verbatim>\<open>munmap\<close> or \<^verbatim>\<open>close\<close>.
\<close>

lemma fifo_map_loop_no_release:
  "filter releases (syscalls (fifo_map_loop k sz repeat fifo i s)) = filter releases (syscalls s) \<and>
   s_shm_fd (fifo_map_loop k sz repeat fifo i s) = s_shm_fd s"
proof (induction k sz repeat fifo i s rule: fifo_map_loop.induct)
  case (1 k sz repeat fifo i s)
  show ?case
  proof (cases "i < unat repeat")
    case True
    then show ?thesis
      using 1 by (simp add: fifo_map_loop_step mmap_fixed_def Let_def)
  next
    case False
    then show ?thesis
      by (simp add: fifo_map_loop_stop)
  qed
qed

lemma fifo_alloc_posix_no_rollback:
  assumes "shm_open_fd k \<noteq> - 1"
  shows "fst (fifo_alloc_posix k sz repeat s) = mmap_base k"
    and "s_shm_fd (snd (fifo_alloc_posix k sz repeat s)) = shm_open_fd k"
    and "filter releases (syscalls (snd (fifo_alloc_posix k sz repeat s))) = filter releases (syscalls s)"
  using assms by (simp_all add: fifo_alloc_posix_def Let_def fifo_map_loop_no_release)

text \<open>
  The Windows \<^verbatim>\<open>fifo_alloc\<close> does test each mapping. When \<^verbatim>\<open>MapViewOfFileEx\<close> keeps failing
  it gives up at the fifth failure, calls \<^verbatim>\<open>fifo_free\<close> (which unmaps the current base view
  and closes the handle) and returns null; the base views of the four earlier attempts
  are not unmapped.
\<close>

lemma win_map_loop_step:
  "i < unat repeat \<Longrightarrow>
   win_map_loop k sz repeat i failed fifo s =
     (let base = fifo + sz * of_nat i;
          r = fst (MapViewOfFileEx k sz base s);
          s2 = (snd (MapViewOfFileEx k sz base s))\<lparr>s_Next := (s_Next s)(i := r)\<rparr>
      in if r \<noteq> base
         then
           (if failed + 1 > 4 then (0, fifo_free_win32 fifo sz repeat s2)
            else win_map_loop k sz repeat 1 (failed + 1)
                   (fst (MapViewOfFile k sz (unmap_down i s2)))
                   (snd (MapViewOfFile k sz (unmap_down i s2))))
         else win_map_loop k sz repeat (Suc i) failed fifo s2)"
  by (subst win_map_loop.simps) simp

lemma win_map_loop_stop:
  "\<not> i < unat repeat \<Longrightarrow> win_map_loop k sz repeat i failed fifo s = (fifo, s)"
  by (subst win_map_loop.simps) simp

lemma free_next_loop_step:
  "i < 8 \<Longrightarrow>
   free_next_loop i s =
     free_next_loop (Suc i)
       (if s_Next s i \<noteq> 0
        then (UnmapViewOfFile (s_Next s i) s)\<lparr>s_Next := (s_Next s)(i := 0)\<rparr>
        else s)"
  by (subst free_next_loop.simps) simp

lemma free_next_loop_stop: "\<not> i < 8 \<Longrightarrow> free_next_loop i s = s"
  by (subst free_next_loop.simps) simp

lemma fifo_alloc_win32_gives_up:
  "fst (fifo_alloc_win32 win_answers_ex_fails 4096 2 win_initial) = 0 \<and>
   s_fh (snd (fifo_alloc_win32 win_answers_ex_fails 4096 2 win_initial)) = 0 \<and>
   wincalls (snd (fifo_alloc_win32 win_answers_ex_fails 4096 2 win_initial)) =
     [Win_CreateFileMapping 4096 7, Win_MapViewOfFile 7 4096 131072,
      Win_MapViewOfFileEx 7 4096 135168 0, Win_UnmapViewOfFile 0,
      Win_MapViewOfFile 7 4096 327680, Win_MapViewOfFileEx 7 4096 331776 0,
      Win_UnmapViewOfFile 0, Win_MapViewOfFile 7 4096 524288,
      Win_MapViewOfFileEx 7 4096 528384 0, Win_UnmapViewOfFile 0,
      Win_MapViewOfFile 7 4096 720896, Win_MapViewOfFileEx 7 4096 724992 0,
      Win_UnmapViewOfFile 0, Win_MapViewOfFile 7 4096 917504,
      Win_MapViewOfFileEx 7 4096 921600 0, Win_UnmapViewOfFile 917504,
      Win_CloseHandle 7]"
  by (simp add: fifo_alloc_win32_def win_answers_ex_fails_def win_initial_def Let_def
      win_map_loop_step win_map_loop_stop free_next_loop_step free_next_loop_stop
      MapViewOfFile_def MapViewOfFileEx_def UnmapViewOfFile_def fifo_free_win32_def)

end
